theory Spec2Isabelle
  imports Main "HOL-Library.AList" "HOL-Library.Multiset"
begin

section \<open>Values\<close>

text \<open>
  Cells, record fields and ids are JavaScript values. Numbers are modelled as integers
  plus \<open>NaN\<close>; an object (a record) is an association list in key order, with
  \<open>undefined\<close> read for a missing key. \<open>Arr\<close> is an array of records, the value
  eager loading attaches to a parent.
\<close>

datatype jsval =
    Undefined
  | Null
  | NaN
  | Num int
  | Str string
  | Bool bool
  | Arr "(string \<times> jsval) list list"

type_synonym entity = "(string \<times> jsval) list"

text \<open>\<open>obj[k]\<close>\<close>

definition get_prop :: "entity \<Rightarrow> string \<Rightarrow> jsval" where
  "get_prop e k = (case map_of e k of None \<Rightarrow> Undefined | Some v \<Rightarrow> v)"

text \<open>\<open>{ ...a, ...b }\<close>\<close>

definition spread :: "entity \<Rightarrow> entity \<Rightarrow> entity" where
  "spread a b = fold (\<lambda>kv acc. AList.update (fst kv) (snd kv) acc) b a"

text \<open>\<open>row[i]\<close>, \<open>undefined\<close> beyond the end of the row\<close>

definition cell_at :: "jsval list \<Rightarrow> nat \<Rightarrow> jsval" where
  "cell_at row i = (if i < length row then row ! i else Undefined)"

text \<open>\<open>a === b\<close>: \<open>NaN\<close> equals nothing; two arrays are two objects.\<close>

definition strict_eq :: "jsval \<Rightarrow> jsval \<Rightarrow> bool" where
  "strict_eq a b = (case a of NaN \<Rightarrow> False | Arr xs \<Rightarrow> False | _ \<Rightarrow> a = b)"

fun show_nat :: "nat \<Rightarrow> string" where
  "show_nat n =
     (if n < 10 then [''0123456789'' ! n]
      else show_nat (n div 10) @ [''0123456789'' ! (n mod 10)])"

definition show_int :: "int \<Rightarrow> string" where
  "show_int i = (if i < 0 then CHR ''-'' # show_nat (nat (- i)) else show_nat (nat i))"

fun join :: "string \<Rightarrow> string list \<Rightarrow> string" where
  "join sep [] = []"
| "join sep [x] = x"
| "join sep (x # y # ys) = x @ sep @ join sep (y # ys)"

text \<open>\<open>String(v)\<close>\<close>

fun to_string :: "jsval \<Rightarrow> string" where
  "to_string Undefined = ''undefined''"
| "to_string Null = ''null''"
| "to_string NaN = ''NaN''"
| "to_string (Num i) = show_int i"
| "to_string (Str s) = s"
| "to_string (Bool b) = (if b then ''true'' else ''false'')"
| "to_string (Arr es) = join '','' (map (\<lambda>e. ''[object Object]'') es)"

definition is_ws :: "char \<Rightarrow> bool" where
  "is_ws c = (c = CHR '' '' \<or> c = CHR 0x09 \<or> c = CHR 0x0A \<or> c = CHR 0x0B
              \<or> c = CHR 0x0C \<or> c = CHR 0x0D)"

text \<open>\<open>s.trim()\<close>, over the white space of ASCII\<close>

definition trim :: "string \<Rightarrow> string" where
  "trim s = rev (dropWhile is_ws (rev (dropWhile is_ws s)))"

definition digit_val :: "char \<Rightarrow> nat option" where
  "digit_val c = map_of (zip ''0123456789'' [0..<10]) c"

fun read_digits :: "nat \<Rightarrow> string \<Rightarrow> nat option" where
  "read_digits acc [] = Some acc"
| "read_digits acc (c # cs) =
     (case digit_val c of None \<Rightarrow> None | Some d \<Rightarrow> read_digits (10 * acc + d) cs)"

definition read_nat :: "string \<Rightarrow> nat option" where
  "read_nat ds = (if ds = [] then None else read_digits 0 ds)"

text \<open>
  \<open>Number(s)\<close> of a string: blank is 0, a signed decimal integer is its value, anything
  else is \<open>NaN\<close> (fractions, exponents and hexadecimal literals lie outside the integer
  number domain of the model).
\<close>

definition string_to_number :: "string \<Rightarrow> jsval" where
  "string_to_number s =
     (let t = trim s in
      if t = [] then Num 0
      else if hd t = CHR ''-'' then
        (case read_nat (tl t) of None \<Rightarrow> NaN | Some n \<Rightarrow> Num (- int n))
      else if hd t = CHR ''+'' then
        (case read_nat (tl t) of None \<Rightarrow> NaN | Some n \<Rightarrow> Num (int n))
      else (case read_nat t of None \<Rightarrow> NaN | Some n \<Rightarrow> Num (int n)))"

text \<open>\<open>Number(v)\<close>\<close>

definition to_number :: "jsval \<Rightarrow> jsval" where
  "to_number v =
     (case v of
        Undefined \<Rightarrow> NaN
      | Null \<Rightarrow> Num 0
      | NaN \<Rightarrow> NaN
      | Num i \<Rightarrow> Num i
      | Str s \<Rightarrow> string_to_number s
      | Bool b \<Rightarrow> Num (if b then 1 else 0)
      | Arr es \<Rightarrow> string_to_number (to_string (Arr es)))"

section \<open>Errors (errors.ts)\<close>

datatype GenjutsuErrorKind =
    AUTH_ERROR
  | PERMISSION_ERROR
  | RATE_LIMIT
  | NETWORK_ERROR
  | VALIDATION_ERROR
  | SCHEMA_ERROR
  | MIGRATION_ERROR
  | API_ERROR

datatype ValidationIssue =
  ValidationIssue (field: string) (issue_message: string) (issue_value: jsval)

text \<open>
  What a \<open>throw\<close> carries: a \<open>GenjutsuError\<close>, some other \<open>Error\<close> with its message, or
  any other value.
\<close>

datatype error =
    GenjutsuError
      (kind: GenjutsuErrorKind)
      (message: string)
      (cause: "error option")
      (retryAfterMs: "int option")
      (validationIssues: "ValidationIssue list option")
      (migrationVersion: "int option")
      (migrationName: "string option")
  | JsError string
  | Thrown jsval

definition permissionError :: "string \<Rightarrow> error" where
  "permissionError msg = GenjutsuError PERMISSION_ERROR msg None None None None None"

definition validationError :: "string \<Rightarrow> ValidationIssue list \<Rightarrow> error" where
  "validationError msg issues =
     GenjutsuError VALIDATION_ERROR msg None None (Some issues) None None"

definition schemaError :: "string \<Rightarrow> error" where
  "schemaError msg = GenjutsuError SCHEMA_ERROR msg None None None None None"

definition migrationError :: "string \<Rightarrow> int \<Rightarrow> string \<Rightarrow> error \<Rightarrow> error" where
  "migrationError msg v n c =
     GenjutsuError MIGRATION_ERROR msg (Some c) None None (Some v) (Some n)"

definition apiError :: "string \<Rightarrow> error" where
  "apiError msg = GenjutsuError API_ERROR msg None None None None None"

text \<open>\<open>err instanceof Error ? err.message : String(err)\<close>\<close>

fun error_text :: "error \<Rightarrow> string" where
  "error_text (GenjutsuError k msg c r i v n) = msg"
| "error_text (JsError msg) = msg"
| "error_text (Thrown v) = to_string v"

definition is_kind :: "GenjutsuErrorKind \<Rightarrow> error \<Rightarrow> bool" where
  "is_kind k e = (case e of GenjutsuError k' m c r i v n \<Rightarrow> k' = k | _ \<Rightarrow> False)"

section \<open>The store and its transport (transport.ts)\<close>

text \<open>
  The spreadsheet behind the transport is an external collaborator. It is modelled as a
  list of sheets, each a grid of rows (row 1 first), together with a schedule of faults
  and the list of calls made so far. A range \<open>Sheet!A<row>:<col>\<close> is kept structured:
  the sheet, the first row and the last column letter; rows are read and written whole.
  Each call is recorded and takes the next entry of the fault schedule: \<open>Some e\<close> makes
  the call raise \<open>e\<close> (a network failure, or an HTTP status as \<open>wrapHttpError\<close> maps it,
  after the one retry on 401). A cell is kept as it was sent; an append goes below the
  last row of the sheet, so into row 1 of an empty sheet; a range on a sheet that is not
  there is refused.
\<close>

datatype a1range = Range (range_sheet: string) (range_row: nat) (range_col: string)

datatype valueRenderOption = FORMATTED_VALUE | UNFORMATTED_VALUE

datatype request =
    AddSheet string
  | InsertDimension int int int
  | UpdateCells int int int string
  | DeleteDimension int int int
  | UpdateSheetProperties int string

datatype call =
    GetSheetValues a1range valueRenderOption
  | BatchGetValues "a1range list" valueRenderOption
  | UpdateSheet a1range "jsval list list" bool
  | ClearRange a1range
  | GetSpreadsheetMetadata
  | StructuralBatchUpdate "request list"

record sheet =
  sheetId :: int
  title :: string
  grid :: "jsval list list"

record store =
  sheets :: "sheet list"
  faults :: "error option list"
  calls :: "call list"

type_synonym 'a io = "store \<Rightarrow> (error + 'a) \<times> store"

definition io_return :: "'a \<Rightarrow> 'a io" where
  "io_return x s = (Inr x, s)"

definition io_throw :: "error \<Rightarrow> 'a io" where
  "io_throw e s = (Inl e, s)"

text \<open>\<open>await m\<close>, then the rest: an error raised by \<open>m\<close> ends the function.\<close>

definition io_bind :: "'a io \<Rightarrow> ('a \<Rightarrow> 'b io) \<Rightarrow> 'b io" where
  "io_bind m f s = (case m s of (Inl e, s') \<Rightarrow> (Inl e, s') | (Inr x, s') \<Rightarrow> f x s')"

text \<open>One HTTP exchange (\<open>fetchWithErrorHandling\<close>): record the call, raise a scheduled fault.\<close>

definition fetch :: "call \<Rightarrow> unit io" where
  "fetch c s =
     (case faults s of
        [] \<Rightarrow> (Inr (), s\<lparr>calls := calls s @ [c]\<rparr>)
      | None # fs \<Rightarrow> (Inr (), s\<lparr>faults := fs, calls := calls s @ [c]\<rparr>)
      | Some e # fs \<Rightarrow> (Inl e, s\<lparr>faults := fs, calls := calls s @ [c]\<rparr>))"

definition find_sheet :: "string \<Rightarrow> sheet list \<Rightarrow> sheet option" where
  "find_sheet t shs = find (\<lambda>sh. title sh = t) shs"

definition set_grid :: "string \<Rightarrow> jsval list list \<Rightarrow> sheet list \<Rightarrow> sheet list" where
  "set_grid t g shs = map (\<lambda>sh. if title sh = t then sh\<lparr>grid := g\<rparr> else sh) shs"

definition no_such_range :: error where
  "no_such_range = apiError ''Sheets API error: 400 Unable to parse range''"

text \<open>\<open>JSON.stringify\<close> of a cell: \<open>undefined\<close> and \<open>NaN\<close> are written as \<open>null\<close>.\<close>

definition json_cell :: "jsval \<Rightarrow> jsval" where
  "json_cell v = (case v of Undefined \<Rightarrow> Null | NaN \<Rightarrow> Null | _ \<Rightarrow> v)"

definition json_rows :: "jsval list list \<Rightarrow> jsval list list" where
  "json_rows vs = map (map json_cell) vs"

definition pad_rows :: "nat \<Rightarrow> jsval list list \<Rightarrow> jsval list list" where
  "pad_rows k g = g @ replicate (k - length g) []"

text \<open>Overwrite from row \<open>k + 1\<close> on: the rows written replace the rows they cover.\<close>

definition put_rows :: "nat \<Rightarrow> jsval list list \<Rightarrow> jsval list list \<Rightarrow> jsval list list" where
  "put_rows k vs g = take k (pad_rows k g) @ vs @ drop (k + length vs) g"

text \<open>Append: after the last row of the sheet, and not above the first row of the range.\<close>

definition append_rows :: "nat \<Rightarrow> jsval list list \<Rightarrow> jsval list list \<Rightarrow> jsval list list" where
  "append_rows k vs g = pad_rows k g @ vs"

definition getSheetValues :: "a1range \<Rightarrow> valueRenderOption \<Rightarrow> jsval list list io" where
  "getSheetValues r opt =
     io_bind (fetch (GetSheetValues r opt)) (\<lambda>u s.
       case find_sheet (range_sheet r) (sheets s) of
         None \<Rightarrow> (Inl no_such_range, s)
       | Some sh \<Rightarrow> (Inr (drop (range_row r - 1) (grid sh)), s))"

definition updateSheet :: "a1range \<Rightarrow> jsval list list \<Rightarrow> bool \<Rightarrow> unit io" where
  "updateSheet r vs is_append =
     io_bind (fetch (UpdateSheet r vs is_append)) (\<lambda>u s.
       case find_sheet (range_sheet r) (sheets s) of
         None \<Rightarrow> (Inl no_such_range, s)
       | Some sh \<Rightarrow>
           (Inr (),
            s\<lparr>sheets := set_grid (range_sheet r)
                 (if is_append then append_rows (range_row r - 1) (json_rows vs) (grid sh)
                  else put_rows (range_row r - 1) (json_rows vs) (grid sh))
                 (sheets s)\<rparr>))"

definition clearRange :: "a1range \<Rightarrow> unit io" where
  "clearRange r =
     io_bind (fetch (ClearRange r)) (\<lambda>u s.
       case find_sheet (range_sheet r) (sheets s) of
         None \<Rightarrow> (Inl no_such_range, s)
       | Some sh \<Rightarrow>
           (Inr (),
            s\<lparr>sheets := set_grid (range_sheet r) (take (range_row r - 1) (grid sh)) (sheets s)\<rparr>))"

text \<open>
  \<open>batchGetValues\<close>: no call for an empty list of ranges; otherwise one call, whose answer
  names each range as it was asked, collected into a \<open>Map\<close> by \<open>result.set\<close>.
\<close>

fun read_ranges :: "sheet list \<Rightarrow> a1range list \<Rightarrow> (a1range \<times> jsval list list) list option" where
  "read_ranges shs [] = Some []"
| "read_ranges shs (r # rs) =
     (case find_sheet (range_sheet r) shs of
        None \<Rightarrow> None
      | Some sh \<Rightarrow>
          (case read_ranges shs rs of
             None \<Rightarrow> None
           | Some vrs \<Rightarrow> Some ((r, drop (range_row r - 1) (grid sh)) # vrs)))"

definition batchGetValues ::
  "a1range list \<Rightarrow> valueRenderOption \<Rightarrow> (a1range \<times> jsval list list) list io" where
  "batchGetValues rs opt =
     (if rs = [] then io_return []
      else io_bind (fetch (BatchGetValues rs opt)) (\<lambda>u s.
        case read_ranges (sheets s) rs of
          None \<Rightarrow> (Inl no_such_range, s)
        | Some vrs \<Rightarrow>
            (Inr (fold (\<lambda>vr m. AList.update (fst vr) (snd vr) m) vrs []), s)))"

definition getSpreadsheetMetadata :: "(int \<times> string) list io" where
  "getSpreadsheetMetadata =
     io_bind (fetch GetSpreadsheetMetadata) (\<lambda>u s.
       (Inr (map (\<lambda>sh. (sheetId sh, title sh)) (sheets s)), s))"

definition fresh_sheet_id :: "sheet list \<Rightarrow> int" where
  "fresh_sheet_id shs = fold (\<lambda>sh m. max (sheetId sh + 1) m) shs 0"

definition has_sheet_id :: "int \<Rightarrow> sheet list \<Rightarrow> bool" where
  "has_sheet_id i shs = (\<exists>sh \<in> set shs. sheetId sh = i)"

definition map_grid :: "int \<Rightarrow> (jsval list list \<Rightarrow> jsval list list) \<Rightarrow> sheet list \<Rightarrow> sheet list" where
  "map_grid i f shs = map (\<lambda>sh. if sheetId sh = i then sh\<lparr>grid := f (grid sh)\<rparr> else sh) shs"

definition set_cell :: "nat \<Rightarrow> nat \<Rightarrow> jsval \<Rightarrow> jsval list list \<Rightarrow> jsval list list" where
  "set_cell r c v g =
     (let g' = pad_rows (Suc r) g; row = g' ! r;
          row' = (row @ replicate (Suc c - length row) Null)[c := v]
      in g'[r := row'])"

text \<open>One structural request on the sheets; \<open>None\<close> when the store refuses it.\<close>

fun apply_request :: "request \<Rightarrow> sheet list \<Rightarrow> sheet list option" where
  "apply_request (AddSheet t) shs =
     (if find_sheet t shs \<noteq> None then None
      else Some (shs @ [\<lparr>sheetId = fresh_sheet_id shs, title = t, grid = []\<rparr>]))"
| "apply_request (InsertDimension i a b) shs =
     (if \<not> has_sheet_id i shs \<or> a < 0 \<or> b \<le> a then None
      else Some (map_grid i
        (map (\<lambda>row. take (nat a) row @ replicate (nat (b - a)) Null @ drop (nat a) row)) shs))"
| "apply_request (UpdateCells i r c v) shs =
     (if \<not> has_sheet_id i shs \<or> r < 0 \<or> c < 0 then None
      else Some (map_grid i (set_cell (nat r) (nat c) (Str v)) shs))"
| "apply_request (DeleteDimension i a b) shs =
     (if \<not> has_sheet_id i shs \<or> a < 0 \<or> b \<le> a then None
      else Some (map_grid i (map (\<lambda>row. take (nat a) row @ drop (nat b) row)) shs))"
| "apply_request (UpdateSheetProperties i t) shs =
     (if \<not> has_sheet_id i shs \<or> (\<exists>sh \<in> set shs. title sh = t \<and> sheetId sh \<noteq> i) then None
      else Some (map (\<lambda>sh. if sheetId sh = i then sh\<lparr>title := t\<rparr> else sh) shs))"

fun apply_requests :: "request list \<Rightarrow> sheet list \<Rightarrow> sheet list option" where
  "apply_requests [] shs = Some shs"
| "apply_requests (q # qs) shs =
     (case apply_request q shs of None \<Rightarrow> None | Some shs' \<Rightarrow> apply_requests qs shs')"

definition bad_request :: error where
  "bad_request = apiError ''Sheets API error: 400 Invalid requests''"

text \<open>\<open>structuralBatchUpdate\<close>: the requests are applied in order, all or none.\<close>

definition structuralBatchUpdate :: "request list \<Rightarrow> unit io" where
  "structuralBatchUpdate qs =
     io_bind (fetch (StructuralBatchUpdate qs)) (\<lambda>u s.
       case apply_requests qs (sheets s) of
         None \<Rightarrow> (Inl bad_request, s)
       | Some shs \<Rightarrow> (Inr (), s\<lparr>sheets := shs\<rparr>))"

section \<open>Schemas and client configuration (types.ts)\<close>

datatype field_type = String_t | Number_t | Date_t | Boolean_t

datatype FieldDefinition =
  FieldDefinition
    (field_name: string)
    (field_type: field_type)
    (isPrimaryKey: bool)
    (isOptional: bool)
    (defaultValue: jsval)
    (references: "(string \<times> string) option")

record RelationDefinition =
  sourceField :: string
  targetModel :: string
  targetField :: string

text \<open>
  \<open>SheetSchema<T>\<close>. An optional member is an \<open>option\<close>; \<open>parseRow\<close> gives \<open>None\<close> for
  \<open>null\<close>; \<open>validate\<close> gives the error it throws. The members read only by \<open>append\<close>
  and by the formatting are left out, and so are the checks \<open>createClient\<close> makes on the
  configuration: the operations below take any configuration.
\<close>

record SheetSchema =
  sheetName :: string
  headers :: "string list"
  readRange :: a1range
  writeRange :: a1range
  clearRange' :: a1range
  parseRow :: "jsval list \<Rightarrow> nat \<Rightarrow> entity option"
  toRow :: "entity \<Rightarrow> jsval list"
  validate :: "(entity \<Rightarrow> error option) option"
  primaryKey :: "string option"
  fields' :: "FieldDefinition list option"
  relations :: "RelationDefinition list option"

record WriteOptions =
  skipFkValidation :: bool

datatype auth = Token string | Provider

record ClientConfig =
  spreadsheetId :: string
  auth :: "auth option"
  apiKey :: "string option"
  schemas :: "(string \<times> SheetSchema) list"

text \<open>\<open>const isReadOnly = !config.auth\<close>: an absent or empty token is falsy.\<close>

definition isReadOnly :: "ClientConfig \<Rightarrow> bool" where
  "isReadOnly cfg =
     (case auth cfg of None \<Rightarrow> True | Some (Token t) \<Rightarrow> t = [] | Some Provider \<Rightarrow> False)"

definition write_requires_auth :: error where
  "write_requires_auth = permissionError
     ''Write operations require auth. This client was created with apiKey only (read-only).''"

text \<open>\<open>if (schema.primaryKey)\<close>: the key when it is present and not the empty string.\<close>

definition truthy_pk :: "SheetSchema \<Rightarrow> string option" where
  "truthy_pk schema =
     (case primaryKey schema of None \<Rightarrow> None | Some pk \<Rightarrow> if pk = [] then None else Some pk)"

text \<open>\<open>if (schema.validate) schema.validate(entity)\<close>\<close>

definition run_validate :: "SheetSchema \<Rightarrow> entity \<Rightarrow> error option" where
  "run_validate schema e = (case validate schema of None \<Rightarrow> None | Some v \<Rightarrow> v e)"

section \<open>Foreign keys and eager loading (relations.ts)\<close>

fun index_of :: "'a list \<Rightarrow> 'a \<Rightarrow> nat option" where
  "index_of [] x = None"
| "index_of (y # ys) x =
     (if y = x then Some 0 else (case index_of ys x of None \<Rightarrow> None | Some i \<Rightarrow> Some (Suc i)))"

definition dquote :: string where
  "dquote = [CHR 0x22]"

definition fk_not_found :: "RelationDefinition \<Rightarrow> jsval \<Rightarrow> error" where
  "fk_not_found relation fkValue =
     validationError
       (''Foreign key validation failed: '' @ sourceField relation @ '' references ''
          @ targetModel relation @ ''.'' @ targetField relation @ '' but value '' @ dquote
          @ to_string fkValue @ dquote @ '' not found'')
       [ValidationIssue (sourceField relation)
          (''Referenced '' @ targetModel relation @ ''.'' @ targetField relation @ '' '' @ dquote
             @ to_string fkValue @ dquote @ '' not found'')
          fkValue]"

text \<open>\<open>rows.some(...)\<close> of \<open>validateForeignKeys\<close>\<close>

definition row_references :: "nat \<Rightarrow> jsval \<Rightarrow> jsval list \<Rightarrow> bool" where
  "row_references pkIndex fkValue row =
     (let cellValue = cell_at row pkIndex in
      cellValue \<noteq> Undefined \<and> cellValue \<noteq> Null \<and> to_string cellValue = to_string fkValue)"

text \<open>The loop of \<open>validateForeignKeys\<close> over \<open>schema.relations\<close>.\<close>

fun validate_relations ::
  "entity \<Rightarrow> (string \<times> SheetSchema) list \<Rightarrow> string list option \<Rightarrow> RelationDefinition list
     \<Rightarrow> unit io" where
  "validate_relations record allSchemas changedFields [] = io_return ()"
| "validate_relations record allSchemas changedFields (relation # rest) =
     (if (case changedFields of None \<Rightarrow> False | Some cf \<Rightarrow> sourceField relation \<notin> set cf)
      then validate_relations record allSchemas changedFields rest
      else
        (let fkValue = get_prop record (sourceField relation) in
         if fkValue = Null \<or> fkValue = Undefined
         then validate_relations record allSchemas changedFields rest
         else
           (case map_of allSchemas (targetModel relation) of
              None \<Rightarrow> validate_relations record allSchemas changedFields rest
            | Some targetSchema \<Rightarrow>
                io_bind (getSheetValues (readRange targetSchema) UNFORMATTED_VALUE) (\<lambda>rows.
                  (let targetPk = (case primaryKey targetSchema of
                                     None \<Rightarrow> targetField relation | Some pk \<Rightarrow> pk)
                   in case index_of (headers targetSchema) targetPk of
                        None \<Rightarrow> validate_relations record allSchemas changedFields rest
                      | Some pkIndex \<Rightarrow>
                          if list_ex (row_references pkIndex fkValue) rows
                          then validate_relations record allSchemas changedFields rest
                          else io_throw (fk_not_found relation fkValue))))))"

definition validateForeignKeys ::
  "entity \<Rightarrow> SheetSchema \<Rightarrow> (string \<times> SheetSchema) list \<Rightarrow> string list option \<Rightarrow> unit io" where
  "validateForeignKeys record schema allSchemas changedFields =
     (case relations schema of
        None \<Rightarrow> io_return ()
      | Some rels \<Rightarrow> validate_relations record allSchemas changedFields rels)"

text \<open>Parse the rows in order, each with its index, and drop the rows parsed to \<open>null\<close>.\<close>

definition parse_rows :: "SheetSchema \<Rightarrow> jsval list list \<Rightarrow> entity list" where
  "parse_rows schema rows =
     List.map_filter (\<lambda>p. parseRow schema (snd p) (fst p)) (enumerate 0 rows)"

definition findRelationToModel ::
  "SheetSchema \<Rightarrow> (string \<times> SheetSchema) list \<Rightarrow> SheetSchema \<Rightarrow> RelationDefinition option" where
  "findRelationToModel relatedSchema allSchemas targetSchema =
     (case relations relatedSchema of
        None \<Rightarrow> None
      | Some rels \<Rightarrow>
          (case find (\<lambda>p. sheetName (snd p) = sheetName targetSchema) allSchemas of
             None \<Rightarrow> None
           | Some p \<Rightarrow>
               if fst p = [] then None
               else find (\<lambda>r. targetModel r = fst p) rels))"

text \<open>
  One pass of the outer loop of \<open>loadRelated\<close>: the related table \<open>relatedKey\<close> is parsed
  from the batch result and attached to every parent under \<open>parent[relatedKey]\<close>.
\<close>

definition attach_related ::
  "SheetSchema \<Rightarrow> (string \<times> SheetSchema) list \<Rightarrow> string \<Rightarrow> (a1range \<times> jsval list list) list
     \<Rightarrow> string \<Rightarrow> entity list \<Rightarrow> entity list" where
  "attach_related schema allSchemas pk batchResult relatedKey enhancedRecords =
     (case map_of allSchemas relatedKey of
        None \<Rightarrow> enhancedRecords
      | Some relatedSchema \<Rightarrow>
          (let relation = findRelationToModel relatedSchema allSchemas schema;
               rows = (case map_of batchResult (readRange relatedSchema) of
                         None \<Rightarrow> [] | Some rs \<Rightarrow> rs);
               relatedRecords = parse_rows relatedSchema rows
           in map (\<lambda>parent.
                 (let parentPk = get_prop parent pk in
                  AList.update relatedKey
                    (case relation of
                       Some rel \<Rightarrow>
                         Arr (filter (\<lambda>child. to_string (get_prop child (sourceField rel))
                                               = to_string parentPk) relatedRecords)
                     | None \<Rightarrow> Arr [])
                    parent))
                enhancedRecords))"

text \<open>\<open>includeMap\<close> is given by its keys, in the order \<open>Object.keys\<close> lists them.\<close>

definition loadRelated ::
  "entity list \<Rightarrow> SheetSchema \<Rightarrow> string list \<Rightarrow> (string \<times> SheetSchema) list \<Rightarrow> entity list io" where
  "loadRelated records schema includeMap allSchemas =
     (if includeMap = [] then io_return records
      else
        (let relatedSchemaKeys = filter (\<lambda>k. map_of allSchemas k \<noteq> None) includeMap;
             relatedRanges = List.map_filter
               (\<lambda>k. map_option readRange (map_of allSchemas k)) includeMap
         in if relatedRanges = [] then io_return records
            else io_bind (batchGetValues relatedRanges UNFORMATTED_VALUE) (\<lambda>batchResult.
              (case truthy_pk schema of
                 None \<Rightarrow> io_return records
               | Some pk \<Rightarrow>
                   io_return
                     (fold (attach_related schema allSchemas pk batchResult)
                        relatedSchemaKeys records)))))"

section \<open>Repositories (client.ts)\<close>

text \<open>
  \<open>withWriteLock(fn)\<close> chains \<open>fn\<close> behind the writes requested before it; operations are
  modelled one at a time, so it runs \<open>fn\<close>. \<open>assertWritable()\<close> is the first test of
  every write.
\<close>

definition readAllRaw :: "SheetSchema \<Rightarrow> entity list io" where
  "readAllRaw schema =
     io_bind (getSheetValues (readRange schema) UNFORMATTED_VALUE) (\<lambda>rows.
       io_return (parse_rows schema rows))"

definition applyDefaults :: "SheetSchema \<Rightarrow> entity \<Rightarrow> entity" where
  "applyDefaults schema record =
     (case fields' schema of
        None \<Rightarrow> record
      | Some fs \<Rightarrow>
          fold (\<lambda>f result.
                  if get_prop result (field_name f) = Undefined \<and> defaultValue f \<noteq> Undefined
                  then AList.update (field_name f) (defaultValue f) result
                  else result)
               fs record)"

definition header_row :: "SheetSchema \<Rightarrow> jsval list" where
  "header_row schema = map Str (headers schema)"

definition duplicate_pk :: "string \<Rightarrow> jsval \<Rightarrow> error" where
  "duplicate_pk pk pkValue =
     validationError (''Duplicate primary key: '' @ to_string pkValue)
       [ValidationIssue pk ''Duplicate primary key'' pkValue]"

definition record_not_found :: "string \<Rightarrow> jsval \<Rightarrow> error" where
  "record_not_found pk rid =
     validationError (''Record not found: '' @ to_string rid)
       [ValidationIssue pk ''Record not found'' rid]"

definition create :: "ClientConfig \<Rightarrow> SheetSchema \<Rightarrow> entity \<Rightarrow> WriteOptions \<Rightarrow> entity io" where
  "create cfg schema record options =
     (if isReadOnly cfg then io_throw write_requires_auth
      else
        (let entity = applyDefaults schema record in
         case run_validate schema entity of
           Some e \<Rightarrow> io_throw e
         | None \<Rightarrow>
             io_bind
               (case truthy_pk schema of
                  None \<Rightarrow> io_return ()
                | Some pk \<Rightarrow>
                    io_bind (readAllRaw schema) (\<lambda>existing.
                      (let pkValue = get_prop entity pk in
                       if list_ex (\<lambda>e. strict_eq (get_prop e pk) pkValue) existing
                       then io_throw (duplicate_pk pk pkValue)
                       else io_return ())))
               (\<lambda>u1. io_bind
                  (if skipFkValidation options then io_return ()
                   else validateForeignKeys entity schema (schemas cfg) None)
               (\<lambda>u2. io_bind (getSheetValues (writeRange schema) FORMATTED_VALUE)
               (\<lambda>rawRows. io_bind
                  (if rawRows = [] then updateSheet (writeRange schema) [header_row schema] False
                   else io_return ())
               (\<lambda>u3. io_bind (updateSheet (writeRange schema) [toRow schema entity] True)
               (\<lambda>u4. io_return entity)))))))"

definition findById :: "SheetSchema \<Rightarrow> jsval \<Rightarrow> entity option io" where
  "findById schema rid =
     (case truthy_pk schema of
        None \<Rightarrow> io_return None
      | Some pk \<Rightarrow>
          io_bind (readAllRaw schema) (\<lambda>records.
            io_return (find (\<lambda>r. strict_eq (get_prop r pk) rid) records)))"

definition findMany ::
  "ClientConfig \<Rightarrow> SheetSchema \<Rightarrow> (entity \<Rightarrow> bool) option \<Rightarrow> string list option
     \<Rightarrow> entity list io" where
  "findMany cfg schema flt include =
     io_bind (readAllRaw schema) (\<lambda>records.
       (let records' = (case flt of None \<Rightarrow> records | Some f \<Rightarrow> filter f records) in
        case include of
          None \<Rightarrow> io_return records'
        | Some includeMap \<Rightarrow> loadRelated records' schema includeMap (schemas cfg)))"

definition readAll :: "ClientConfig \<Rightarrow> SheetSchema \<Rightarrow> string list option \<Rightarrow> entity list io" where
  "readAll cfg schema include =
     io_bind (readAllRaw schema) (\<lambda>records.
       case include of
         None \<Rightarrow> io_return records
       | Some includeMap \<Rightarrow> loadRelated records schema includeMap (schemas cfg))"

fun findIndex :: "('a \<Rightarrow> bool) \<Rightarrow> 'a list \<Rightarrow> nat option" where
  "findIndex P [] = None"
| "findIndex P (x # xs) =
     (if P x then Some 0 else (case findIndex P xs of None \<Rightarrow> None | Some i \<Rightarrow> Some (Suc i)))"

definition table_values :: "SheetSchema \<Rightarrow> entity list \<Rightarrow> jsval list list" where
  "table_values schema records = header_row schema # map (toRow schema) records"

definition update ::
  "ClientConfig \<Rightarrow> SheetSchema \<Rightarrow> jsval \<Rightarrow> entity \<Rightarrow> WriteOptions \<Rightarrow> entity io" where
  "update cfg schema rid changes options =
     (if isReadOnly cfg then io_throw write_requires_auth
      else io_bind (readAllRaw schema) (\<lambda>records.
        case truthy_pk schema of
          None \<Rightarrow> io_throw (validationError ''Cannot update without a primary key'' [])
        | Some pk \<Rightarrow>
            (case findIndex (\<lambda>r. strict_eq (get_prop r pk) rid) records of
               None \<Rightarrow> io_throw (record_not_found pk rid)
             | Some index \<Rightarrow>
                 (let merged = spread (records ! index) changes in
                  case run_validate schema merged of
                    Some e \<Rightarrow> io_throw e
                  | None \<Rightarrow>
                      io_bind
                        (if skipFkValidation options then io_return ()
                         else validateForeignKeys merged schema (schemas cfg)
                                (Some (map fst changes)))
                      (\<lambda>u1. io_bind (clearRange (clearRange' schema))
                      (\<lambda>u2. io_bind
                         (updateSheet (writeRange schema)
                            (table_values schema (records[index := merged])) False)
                      (\<lambda>u3. io_return merged)))))))"

definition delete :: "ClientConfig \<Rightarrow> SheetSchema \<Rightarrow> jsval \<Rightarrow> unit io" where
  "delete cfg schema rid =
     (if isReadOnly cfg then io_throw write_requires_auth
      else
        (case truthy_pk schema of
           None \<Rightarrow> io_return ()
         | Some pk \<Rightarrow>
             io_bind (readAllRaw schema) (\<lambda>records.
               (let filtered = filter (\<lambda>r. \<not> strict_eq (get_prop r pk) rid) records in
                io_bind (clearRange (clearRange' schema))
                (\<lambda>u1. updateSheet (writeRange schema) (table_values schema filtered) False)))))"

section \<open>Model definitions (model.ts)\<close>

datatype FieldDef =
  FieldDef
    (def_type: field_type)
    (def_isPrimaryKey: bool)
    (def_isOptional: bool)
    (def_defaultValue: jsval)
    (def_references: "(string \<times> string) option")

definition field_string :: FieldDef where
  "field_string = FieldDef String_t False False Undefined None"

definition field_number :: FieldDef where
  "field_number = FieldDef Number_t False False Undefined None"

definition field_date :: FieldDef where
  "field_date = FieldDef Date_t False False Undefined None"

definition field_boolean :: FieldDef where
  "field_boolean = FieldDef Boolean_t False False Undefined None"

definition as_primaryKey :: "FieldDef \<Rightarrow> FieldDef" where
  "as_primaryKey f =
     FieldDef (def_type f) True (def_isOptional f) (def_defaultValue f) (def_references f)"

definition as_optional :: "FieldDef \<Rightarrow> FieldDef" where
  "as_optional f =
     FieldDef (def_type f) (def_isPrimaryKey f) True (def_defaultValue f) (def_references f)"

definition with_default :: "jsval \<Rightarrow> FieldDef \<Rightarrow> FieldDef" where
  "with_default v f =
     FieldDef (def_type f) (def_isPrimaryKey f) (def_isOptional f) v (def_references f)"

definition with_references :: "string \<Rightarrow> string \<Rightarrow> FieldDef \<Rightarrow> FieldDef" where
  "with_references m fld f =
     FieldDef (def_type f) (def_isPrimaryKey f) (def_isOptional f) (def_defaultValue f)
       (Some (m, fld))"

definition columnLetter :: "nat \<Rightarrow> string" where
  "columnLetter index = [char_of (65 + index)]"

definition parseCell :: "jsval \<Rightarrow> FieldDef \<Rightarrow> jsval" where
  "parseCell v f =
     (let isEmpty = (v = Undefined \<or> v = Null \<or> v = Str []) in
      if isEmpty \<and> def_defaultValue f \<noteq> Undefined then def_defaultValue f
      else
        (case def_type f of
           String_t \<Rightarrow>
             if isEmpty then (if def_isOptional f then Null else Str []) else Str (to_string v)
         | Date_t \<Rightarrow>
             if isEmpty then (if def_isOptional f then Null else Str []) else Str (to_string v)
         | Number_t \<Rightarrow>
             if isEmpty then (if def_isOptional f then Null else Num 0) else to_number v
         | Boolean_t \<Rightarrow> Bool (v = Bool True \<or> v = Str ''TRUE'' \<or> v = Str ''true'')))"

definition model_parseRow :: "(string \<times> FieldDef) list \<Rightarrow> jsval list \<Rightarrow> nat \<Rightarrow> entity option" where
  "model_parseRow entries row rowIndex =
     (let firstCell = cell_at row 0 in
      if firstCell = Undefined \<or> firstCell = Null \<or> trim (to_string firstCell) = [] then None
      else Some (map (\<lambda>p. (fst (snd p), parseCell (cell_at row (fst p)) (snd (snd p))))
                   (enumerate 0 entries)))"

definition model_toRow :: "string list \<Rightarrow> entity \<Rightarrow> jsval list" where
  "model_toRow hs e = map (get_prop e) hs"

definition required_issue :: "string \<Rightarrow> jsval \<Rightarrow> ValidationIssue" where
  "required_issue n v =
     ValidationIssue n
       (''Required field '' @ dquote @ n @ dquote @ '' is missing or null'') v"

definition model_validate :: "(string \<times> FieldDef) list \<Rightarrow> entity \<Rightarrow> error option" where
  "model_validate entries e =
     (let issues = List.map_filter
            (\<lambda>p. (let v = get_prop e (fst p) in
                   if \<not> def_isOptional (snd p) \<and> (v = Null \<or> v = Undefined)
                   then Some (required_issue (fst p) v) else None))
            entries
      in if issues = [] then None
         else Some (validationError
                      (''Validation failed: '' @ join '', '' (map issue_message issues)) issues))"

definition field_relations :: "(string \<times> FieldDef) list \<Rightarrow> RelationDefinition list" where
  "field_relations entries =
     List.map_filter
       (\<lambda>p. (case def_references (snd p) of
                None \<Rightarrow> None
              | Some r \<Rightarrow>
                  Some \<lparr>sourceField = fst p, targetModel = fst r, targetField = snd r\<rparr>))
       entries"

text \<open>The schema object \<open>defineModel\<close> builds once its checks have passed.\<close>

definition model_schema :: "string \<Rightarrow> (string \<times> FieldDef) list \<Rightarrow> SheetSchema" where
  "model_schema sheet entries =
     (let primaryKeys = filter (\<lambda>p. def_isPrimaryKey (snd p)) entries;
          hs = map fst entries;
          lastCol = columnLetter (length hs - 1);
          rels = field_relations entries
      in \<lparr>sheetName = sheet,
          headers = hs,
          readRange = Range sheet 2 lastCol,
          writeRange = Range sheet 1 lastCol,
          clearRange' = Range sheet 2 lastCol,
          parseRow = model_parseRow entries,
          toRow = model_toRow hs,
          validate = Some (model_validate entries),
          primaryKey = Some (fst (hd primaryKeys)),
          fields' = Some (map (\<lambda>p. FieldDefinition (fst p) (def_type (snd p))
                                   (def_isPrimaryKey (snd p)) (def_isOptional (snd p))
                                   (def_defaultValue (snd p)) (def_references (snd p)))
                          entries),
          relations = (if rels = [] then None else Some rels)\<rparr>)"

definition defineModel :: "string \<Rightarrow> (string \<times> FieldDef) list \<Rightarrow> error + SheetSchema" where
  "defineModel sheet entries =
     (if entries = [] then Inl (schemaError ''defineModel requires at least one field'')
      else
        (let primaryKeys = filter (\<lambda>p. def_isPrimaryKey (snd p)) entries in
         if primaryKeys = []
         then Inl (schemaError ''defineModel requires exactly one field marked as primaryKey'')
         else if 1 < length primaryKeys
         then Inl (schemaError
                (''defineModel requires exactly one primaryKey, found ''
                   @ show_nat (length primaryKeys) @ '': '' @ join '', '' (map fst primaryKeys)))
         else Inr (model_schema sheet entries)))"

section \<open>Migrations (migrations.ts)\<close>

record MigrationContext =
  createSheet :: "string \<Rightarrow> unit io"
  addColumn :: "string \<Rightarrow> string \<Rightarrow> int option \<Rightarrow> unit io"
  removeColumn :: "string \<Rightarrow> int \<Rightarrow> unit io"
  renameColumn :: "string \<Rightarrow> int \<Rightarrow> string \<Rightarrow> unit io"
  renameSheet :: "string \<Rightarrow> string \<Rightarrow> unit io"

record Migration =
  version :: int
  name :: string
  up :: "MigrationContext \<Rightarrow> unit io"

definition MIGRATIONS_SHEET :: string where
  "MIGRATIONS_SHEET = ''_genjutsu_migrations''"

definition MIGRATIONS_RANGE :: a1range where
  "MIGRATIONS_RANGE = Range MIGRATIONS_SHEET 2 ''C''"

text \<open>The range \<open>_genjutsu_migrations!A1:C\<close> the ledger rows are appended to.\<close>

definition MIGRATIONS_APPEND_RANGE :: a1range where
  "MIGRATIONS_APPEND_RANGE = Range MIGRATIONS_SHEET 1 ''C''"

definition resolveSheetId :: "(string \<times> int) list \<Rightarrow> string \<Rightarrow> int io" where
  "resolveSheetId sheetIdMap n =
     (case map_of sheetIdMap n of
        None \<Rightarrow> io_throw (schemaError (''Sheet '' @ dquote @ n @ dquote
                                         @ '' not found in spreadsheet''))
      | Some i \<Rightarrow> io_return i)"

definition createMigrationContext :: "(string \<times> int) list \<Rightarrow> MigrationContext" where
  "createMigrationContext sheetIdMap =
     \<lparr>createSheet = (\<lambda>n. structuralBatchUpdate [AddSheet n]),
      addColumn = (\<lambda>sh column afterIndex.
        io_bind (resolveSheetId sheetIdMap sh) (\<lambda>i.
          (let colIndex = (case afterIndex of None \<Rightarrow> 0 | Some a \<Rightarrow> a) in
           structuralBatchUpdate
             [InsertDimension i colIndex (colIndex + 1), UpdateCells i 0 colIndex column]))),
      removeColumn = (\<lambda>sh columnIndex.
        io_bind (resolveSheetId sheetIdMap sh) (\<lambda>i.
          structuralBatchUpdate [DeleteDimension i columnIndex (columnIndex + 1)])),
      renameColumn = (\<lambda>sh columnIndex newName.
        io_bind (resolveSheetId sheetIdMap sh) (\<lambda>i.
          structuralBatchUpdate [UpdateCells i 0 columnIndex newName])),
      renameSheet = (\<lambda>oldName newName.
        io_bind (resolveSheetId sheetIdMap oldName) (\<lambda>i.
          structuralBatchUpdate [UpdateSheetProperties i newName]))\<rparr>"

text \<open>The first loop of \<open>runMigrations\<close>: the first version met a second time.\<close>

fun duplicate_version :: "int list \<Rightarrow> Migration list \<Rightarrow> int option" where
  "duplicate_version versions [] = None"
| "duplicate_version versions (m # ms) =
     (if version m \<in> set versions then Some (version m)
      else duplicate_version (version m # versions) ms)"

text \<open>\<open>sheetIdMap.set(s.title, s.sheetId)\<close> for every sheet of a metadata answer.\<close>

definition add_sheet_ids :: "(int \<times> string) list \<Rightarrow> (string \<times> int) list \<Rightarrow> (string \<times> int) list" where
  "add_sheet_ids meta m = fold (\<lambda>p acc. AList.update (snd p) (fst p) acc) meta m"

text \<open>The versions the ledger rows carry: \<open>Number(row[0])\<close> when it is not \<open>NaN\<close>.\<close>

definition appliedVersions :: "jsval list list \<Rightarrow> int list" where
  "appliedVersions rows =
     List.map_filter
       (\<lambda>row. (case to_number (cell_at row 0) of Num v \<Rightarrow> Some v | _ \<Rightarrow> None)) rows"

definition migration_failed :: "Migration \<Rightarrow> error \<Rightarrow> error" where
  "migration_failed m err =
     migrationError
       (''Migration '' @ show_int (version m) @ '' ('' @ name m @ '') failed: '' @ error_text err)
       (version m) (name m) err"

text \<open>
  The loop over the pending migrations. Next to the outcome and the store it returns the
  versions whose \<open>up\<close> was called, in call order. \<open>clock\<close> is \<open>new Date().toISOString()\<close>
  read in the state after the procedure.
\<close>

fun execute_pending ::
  "(store \<Rightarrow> string) \<Rightarrow> MigrationContext \<Rightarrow> Migration list \<Rightarrow> store
     \<Rightarrow> ((error + unit) \<times> store) \<times> int list" where
  "execute_pending clock mCtx [] s = ((Inr (), s), [])"
| "execute_pending clock mCtx (m # ms) s =
     (case up m mCtx s of
        (Inl err, s1) \<Rightarrow> ((Inl (migration_failed m err), s1), [version m])
      | (Inr u, s1) \<Rightarrow>
          (case updateSheet MIGRATIONS_APPEND_RANGE
                  [[Num (version m), Str (name m), Str (clock s1)]] True s1 of
             (Inl e, s2) \<Rightarrow> ((Inl e, s2), [version m])
           | (Inr u', s2) \<Rightarrow>
               (case execute_pending clock mCtx ms s2 of
                  (r, vs) \<Rightarrow> (r, version m # vs))))"

text \<open>Everything of \<open>runMigrations\<close> between the version check and the loop.\<close>

definition prepare_pending :: "Migration list \<Rightarrow> (Migration list \<times> (string \<times> int) list) io" where
  "prepare_pending migrations =
     (let sorted = sort_key version migrations in
      io_bind getSpreadsheetMetadata (\<lambda>metadata.
        (let sheetIdMap = add_sheet_ids metadata [] in
         io_bind
           (if map_of sheetIdMap MIGRATIONS_SHEET = None
            then io_bind (structuralBatchUpdate [AddSheet MIGRATIONS_SHEET]) (\<lambda>u.
                   io_bind getSpreadsheetMetadata (\<lambda>refreshed.
                     io_return (add_sheet_ids refreshed sheetIdMap)))
            else io_return sheetIdMap)
         (\<lambda>sheetIdMap'.
           io_bind (getSheetValues MIGRATIONS_RANGE UNFORMATTED_VALUE) (\<lambda>rows.
             (let applied = appliedVersions rows;
                  pending = filter (\<lambda>m. version m \<notin> set applied) sorted
              in io_return (pending, sheetIdMap')))))))"

definition duplicate_version_error :: "int \<Rightarrow> error" where
  "duplicate_version_error v =
     schemaError (''Migrations have duplicate version number: '' @ show_int v)"

definition runMigrations ::
  "(store \<Rightarrow> string) \<Rightarrow> Migration list \<Rightarrow> store \<Rightarrow> ((error + unit) \<times> store) \<times> int list" where
  "runMigrations clock migrations s =
     (case duplicate_version [] migrations of
        Some v \<Rightarrow> ((Inl (duplicate_version_error v), s), [])
      | None \<Rightarrow>
          (case prepare_pending migrations s of
             (Inl e, s1) \<Rightarrow> ((Inl e, s1), [])
           | (Inr (pending, sheetIdMap), s1) \<Rightarrow>
               if pending = [] then ((Inr (), s1), [])
               else execute_pending clock (createMigrationContext sheetIdMap) pending s1))"

section \<open>A shop: the tables of the concrete scenario\<close>

definition Orders :: SheetSchema where
  "Orders = model_schema ''Orders''
     [(''id'', as_primaryKey field_string), (''customer'', field_string)]"

definition Items :: SheetSchema where
  "Items = model_schema ''Items''
     [(''id'', as_primaryKey field_string),
      (''orderId'', with_references ''Orders'' ''id'' field_string),
      (''name'', field_string)]"

definition shop :: ClientConfig where
  "shop = \<lparr>spreadsheetId = ''shop'', auth = Some (Token ''token''), apiKey = None,
            schemas = [(''Orders'', Orders), (''Items'', Items)]\<rparr>"

definition shop_store :: store where
  "shop_store =
     \<lparr>sheets =
        [\<lparr>sheetId = 0, title = ''Orders'',
          grid = [[Str ''id'', Str ''customer''], [Str ''o1'', Str ''Alice'']]\<rparr>,
         \<lparr>sheetId = 1, title = ''Items'',
          grid = [[Str ''id'', Str ''orderId'', Str ''name''],
                  [Str ''i1'', Str ''o1'', Str ''Widget'']]\<rparr>],
      faults = [], calls = []\<rparr>"

definition check_fk :: WriteOptions where
  "check_fk = \<lparr>skipFkValidation = False\<rparr>"

text \<open>A hand-written schema without a primary key.\<close>

definition Notes :: SheetSchema where
  "Notes = (model_schema ''Notes'' [(''text'', field_string)])\<lparr>primaryKey := None\<rparr>"

definition notes_store :: store where
  "notes_store =
     \<lparr>sheets = [\<lparr>sheetId = 0, title = ''Notes'', grid = [[Str ''text''], [Str ''hello'']]\<rparr>],
      faults = [], calls = []\<rparr>"

text \<open>Two migrations, a clock, and the shop with its ledger sheet under a header row.\<close>

definition add_phone :: Migration where
  "add_phone = \<lparr>version = 1, name = ''add-phone'',
                 up = (\<lambda>ctx. addColumn ctx ''Orders'' ''phone'' (Some 2))\<rparr>"

definition create_tags :: Migration where
  "create_tags = \<lparr>version = 2, name = ''create-tags'',
                   up = (\<lambda>ctx. createSheet ctx ''Tags'')\<rparr>"

definition noon :: "store \<Rightarrow> string" where
  "noon s = ''2026-02-19T12:00:00.000Z''"

definition ledger_store :: store where
  "ledger_store =
     shop_store\<lparr>sheets := sheets shop_store @
        [\<lparr>sheetId = 99, title = MIGRATIONS_SHEET,
          grid = [[Str ''version'', Str ''name'', Str ''applied_at'']]\<rparr>]\<rparr>"

text \<open>The calls that read one range, as the repositories and the validation issue them.\<close>

definition is_read :: "call \<Rightarrow> bool" where
  "is_read c = (\<exists>r. c = GetSheetValues r UNFORMATTED_VALUE)"




definition skip_fk :: WriteOptions where
  "skip_fk = \<lparr>skipFkValidation = True\<rparr>"

definition item_order :: RelationDefinition where
  "item_order = \<lparr>sourceField = ''orderId'', targetModel = ''Orders'', targetField = ''id''\<rparr>"

definition gadget :: entity where
  "gadget = [(''id'', Str ''i2''), (''orderId'', Str ''ghost''), (''name'', Str ''Gadget'')]"

text \<open>
  The layout \<open>defineModel\<close> gives a table: data read and cleared from row 2 of the sheet,
  written from row 1.
\<close>

definition table_layout :: "SheetSchema \<Rightarrow> string \<Rightarrow> bool" where
  "table_layout schema t =
     (range_sheet (readRange schema) = t \<and> range_row (readRange schema) = 2
      \<and> range_sheet (clearRange' schema) = t \<and> range_row (clearRange' schema) = 2
      \<and> range_sheet (writeRange schema) = t \<and> range_row (writeRange schema) = 1)"

text \<open>The row a record is stored as: \<open>toRow\<close>, sent as JSON.\<close>

definition stored_row :: "SheetSchema \<Rightarrow> entity \<Rightarrow> jsval list" where
  "stored_row schema r = map json_cell (toRow schema r)"

text \<open>A stock table with a numeric column, one of whose cells holds text.\<close>

definition Stock :: SheetSchema where
  "Stock = model_schema ''Stock'' [(''id'', as_primaryKey field_string), (''qty'', field_number)]"

definition stock_store :: store where
  "stock_store =
     \<lparr>sheets = [\<lparr>sheetId = 0, title = ''Stock'',
                  grid = [[Str ''id'', Str ''qty''], [Str ''a'', Str ''abc'']]\<rparr>],
      faults = [], calls = []\<rparr>"

definition orders_sheet :: sheet where
  "orders_sheet = \<lparr>sheetId = 0, title = ''Orders'',
                    grid = [[Str ''id'', Str ''customer''], [Str ''o1'', Str ''Alice'']]\<rparr>"

text \<open>The rows a range covers in the sheets (none for a sheet that is not there).\<close>

definition range_rows :: "sheet list \<Rightarrow> a1range \<Rightarrow> jsval list list" where
  "range_rows shs r =
     (case find_sheet (range_sheet r) shs of
        None \<Rightarrow> []
      | Some sh \<Rightarrow> drop (range_row r - 1) (grid sh))"

text \<open>\<open>batchResult.get(range) ?? []\<close>\<close>

definition batch_rows :: "(a1range \<times> jsval list list) list \<Rightarrow> a1range \<Rightarrow> jsval list list" where
  "batch_rows batchResult r = (case map_of batchResult r of None \<Rightarrow> [] | Some rs \<Rightarrow> rs)"

text \<open>A registry in which a model is registered under the name of the orders' key column.\<close>

definition Tags :: SheetSchema where
  "Tags = model_schema ''Tags''
     [(''id'', as_primaryKey field_string),
      (''orderId'', with_references ''Orders'' ''id'' field_string),
      (''label'', field_string)]"

definition tagged_shop :: ClientConfig where
  "tagged_shop = \<lparr>spreadsheetId = ''shop'', auth = Some (Token ''token''), apiKey = None,
                   schemas = [(''Orders'', Orders), (''id'', Items), (''Tags'', Tags)]\<rparr>"

definition tagged_store :: store where
  "tagged_store =
     shop_store\<lparr>sheets := sheets shop_store @
        [\<lparr>sheetId = 2, title = ''Tags'',
          grid = [[Str ''id'', Str ''orderId'', Str ''label''],
                  [Str ''t1'', Str ''o1'', Str ''urgent'']]\<rparr>]\<rparr>"

text \<open>A migration whose procedure throws.\<close>

definition broken :: Migration where
  "broken = \<lparr>version = 3, name = ''broken'', up = (\<lambda>ctx. io_throw (JsError ''boom''))\<rparr>"

text \<open>The row the runner appends for a migration at noon.\<close>

definition ledger_row :: "Migration \<Rightarrow> jsval list" where
  "ledger_row m = [Num (version m), Str (name m), Str ''2026-02-19T12:00:00.000Z'']"

text \<open>The ledger sheet of a store, and the map from titles to ids a run builds from it.\<close>

definition ledger_sheet :: "store \<Rightarrow> sheet option" where
  "ledger_sheet s = find_sheet MIGRATIONS_SHEET (sheets s)"

definition sheet_ids :: "store \<Rightarrow> (string \<times> int) list" where
  "sheet_ids s = add_sheet_ids (map (\<lambda>sh. (sheetId sh, title sh)) (sheets s)) []"

text \<open>
  A procedure that, run with the context \<open>ctx\<close> on a store without scheduled faults whose
  ledger sheet has the id \<open>l\<close>, schedules no fault and leaves the ledger sheet as it is.
\<close>

definition keeps_ledger :: "int \<Rightarrow> MigrationContext \<Rightarrow> Migration \<Rightarrow> bool" where
  "keeps_ledger l ctx m =
     (\<forall>s r s'. up m ctx s = (r, s') \<longrightarrow> faults s = []
        \<longrightarrow> map_option sheetId (ledger_sheet s) = Some l
        \<longrightarrow> faults s' = [] \<and> ledger_sheet s' = ledger_sheet s)"

text \<open>The shop with three orders.\<close>

definition busy_store :: store where
  "busy_store =
     \<lparr>sheets =
        [\<lparr>sheetId = 0, title = ''Orders'',
          grid = [[Str ''id'', Str ''customer''], [Str ''o1'', Str ''Alice''],
                  [Str ''o2'', Str ''Bob''], [Str ''o3'', Str ''Cara'']]\<rparr>,
         \<lparr>sheetId = 1, title = ''Items'',
          grid = [[Str ''id'', Str ''orderId'', Str ''name''],
                  [Str ''i1'', Str ''o1'', Str ''Widget'']]\<rparr>],
      faults = [], calls = []\<rparr>"

text \<open>A client created with an API key only, and a store whose next call fails.\<close>

definition readonly_shop :: ClientConfig where
  "readonly_shop = \<lparr>spreadsheetId = ''shop'', auth = None, apiKey = Some ''key'',
                     schemas = [(''Notes'', Notes)]\<rparr>"

definition server_error :: error where
  "server_error = apiError ''Sheets API error: 500 Internal error''"

definition notes_down :: store where
  "notes_down = notes_store\<lparr>faults := [Some server_error]\<rparr>"

section \<open>Properties\<close>

subsection \<open>The state monad of the transport\<close>

lemma io_bind_Inl: "m s = (Inl e, s') \<Longrightarrow> io_bind m f s = (Inl e, s')"
  by (simp add: io_bind_def)

lemma io_bind_Inr: "m s = (Inr x, s') \<Longrightarrow> io_bind m f s = f x s'"
  by (simp add: io_bind_def)

lemma io_bind_return: "io_bind (io_return x) f = f x"
  by (rule ext) (simp add: io_bind_def io_return_def)


text \<open>A call leaves the sheets alone unless it is a write, and is recorded once.\<close>

lemma fetch_frame:
  "fetch c s = (r, s') \<Longrightarrow> sheets s' = sheets s \<and> calls s' = calls s @ [c]"
  by (auto simp: fetch_def split: list.splits option.splits)

lemma getSheetValues_frame:
  assumes "getSheetValues r opt s = (x, s')"
  shows "sheets s' = sheets s \<and> calls s' = calls s @ [GetSheetValues r opt]"
proof (cases "fetch (GetSheetValues r opt) s")
  case (Pair y s1)
  from fetch_frame[OF Pair]
  have f: "sheets s1 = sheets s" "calls s1 = calls s @ [GetSheetValues r opt]"
    by simp_all
  from assms Pair f show ?thesis
    by (cases y) (auto simp: getSheetValues_def io_bind_def split: option.splits)
qed

lemma readAllRaw_frame:
  assumes "readAllRaw schema s = (x, s')"
  shows "sheets s' = sheets s \<and>
         calls s' = calls s @ [GetSheetValues (readRange schema) UNFORMATTED_VALUE]"
proof (cases "getSheetValues (readRange schema) UNFORMATTED_VALUE s")
  case (Pair y s1)
  from assms Pair have "s' = s1"
    by (cases y) (auto simp: readAllRaw_def io_bind_def io_return_def)
  with getSheetValues_frame[OF Pair] show ?thesis by simp
qed

subsection \<open>Tables without a primary key\<close>

text \<open>
  C10, as the code has it. On a table whose schema has no primary key (absent, or the
  empty string, which the tests \<open>if (!schema.primaryKey)\<close> treat alike): \<open>findById\<close>
  answers \<open>null\<close> and the store,
  its call list included, is untouched; on a writable client \<open>delete\<close> returns without
  error and leaves the store untouched as well; \<open>update\<close> never succeeds, and on a
  writable client whose table read succeeds it fails with the validation error
  "Cannot update without a primary key", whatever the id.
\<close>

theorem no_primary_key_operations:
  assumes "truthy_pk schema = None"
  shows "findById schema rid s = (Inr None, s)
    \<and> (\<not> isReadOnly cfg \<longrightarrow> delete cfg schema rid s = (Inr (), s))
    \<and> (\<not> isReadOnly cfg \<longrightarrow>
         (\<forall>records s'. readAllRaw schema s = (Inr records, s') \<longrightarrow>
            update cfg schema rid changes options s
              = (Inl (validationError ''Cannot update without a primary key'' []), s')))
    \<and> isl (fst (update cfg schema rid changes options s))"
proof -
  have a: "findById schema rid s = (Inr None, s)"
    using assms by (simp add: findById_def io_return_def)
  have b: "\<not> isReadOnly cfg \<Longrightarrow> delete cfg schema rid s = (Inr (), s)"
    using assms by (simp add: delete_def io_return_def)
  have c: "update cfg schema rid changes options s
              = (Inl (validationError ''Cannot update without a primary key'' []), s')"
    if "\<not> isReadOnly cfg" "readAllRaw schema s = (Inr records, s')" for records s'
    using assms that by (simp add: update_def io_bind_def io_throw_def)
  have d: "isl (fst (update cfg schema rid changes options s))"
  proof (cases "readAllRaw schema s")
    case (Pair y s1)
    then show ?thesis using assms
      by (cases y) (auto simp: update_def io_bind_def io_throw_def)
  qed
  from a b c d show ?thesis by blast
qed

theorem no_primary_key_operations_witness:
  "truthy_pk Notes = None
   \<and> \<not> isReadOnly shop
   \<and> readAllRaw Notes notes_store
       = (Inr [[(''text'', Str ''hello'')]],
          notes_store\<lparr>calls := [GetSheetValues (readRange Notes) UNFORMATTED_VALUE]\<rparr>)
   \<and> findById Notes (Str ''hello'') notes_store = (Inr None, notes_store)
   \<and> delete shop Notes (Str ''hello'') notes_store = (Inr (), notes_store)
   \<and> update shop Notes (Str ''hello'') [(''text'', Str ''bye'')] check_fk notes_store
       = (Inl (validationError ''Cannot update without a primary key'' []),
          notes_store\<lparr>calls := [GetSheetValues (readRange Notes) UNFORMATTED_VALUE]\<rparr>)"
proof -
  have h1: "truthy_pk Notes = None" by code_simp
  have h2: "\<not> isReadOnly shop" by code_simp
  have h3: "readAllRaw Notes notes_store
       = (Inr [[(''text'', Str ''hello'')]],
          notes_store\<lparr>calls := [GetSheetValues (readRange Notes) UNFORMATTED_VALUE]\<rparr>)"
    by code_simp
  from no_primary_key_operations[OF h1, of "Str ''hello''" notes_store shop
      "[(''text'', Str ''bye'')]" check_fk] h2 h3
  show ?thesis using h1 by blast
qed

text \<open>
  The claim as stated fails where the client is read-only or the table read fails: on a
  client created with an API key only, \<open>delete\<close> and \<open>update\<close> both raise the permission
  error of \<open>assertWritable\<close>; on a writable client whose read of the table fails,
  \<open>update\<close> raises the error of the transport.
\<close>

theorem no_primary_key_counterexample:
  "truthy_pk Notes = None
   \<and> isReadOnly readonly_shop
   \<and> delete readonly_shop Notes (Str ''hello'') notes_store
       = (Inl write_requires_auth, notes_store)
   \<and> update readonly_shop Notes (Str ''hello'') [(''text'', Str ''bye'')] check_fk notes_store
       = (Inl write_requires_auth, notes_store)
   \<and> kind write_requires_auth = PERMISSION_ERROR
   \<and> \<not> isReadOnly shop
   \<and> fst (update shop Notes (Str ''hello'') [(''text'', Str ''bye'')] check_fk notes_down)
       = Inl server_error
   \<and> kind server_error = API_ERROR"
  by code_simp

subsection \<open>Migrations: version check and order of execution\<close>

lemma duplicate_version_None:
  "duplicate_version seen ms = None
     \<longleftrightarrow> distinct (map version ms) \<and> set (map version ms) \<inter> set seen = {}"
  by (induction ms arbitrary: seen) auto









subsection \<open>Objects and lists\<close>

lemma findIndex_Some:
  "findIndex P xs = Some i \<Longrightarrow> i < length xs \<and> P (xs ! i) \<and> (\<forall>j<i. \<not> P (xs ! j))"
proof (induction xs arbitrary: i)
  case Nil
  then show ?case by simp
next
  case (Cons x xs)
  show ?case
  proof (cases "P x")
    case True
    with Cons.prems show ?thesis by simp
  next
    case False
    with Cons.prems obtain k where k: "findIndex P xs = Some k" "i = Suc k"
      by (auto split: option.splits)
    from Cons.IH[OF k(1)] False k(2) show ?thesis
      by (auto simp: nth_Cons split: nat.splits)
  qed
qed

lemma map_of_spread: "map_of (spread a b) = map_of a ++ map_of (rev b)"
  unfolding spread_def
  by (induction b arbitrary: a) (auto simp: update_conv')

lemma get_prop_spread:
  assumes "distinct (map fst b)"
  shows "get_prop (spread a b) k = (if k \<in> fst ` set b then get_prop b k else get_prop a k)"
proof -
  from assms have r: "map_of (rev b) = map_of b" by (simp add: map_of_inject_set distinct_map)
  show ?thesis
  proof (cases "map_of b k")
    case None
    then have "k \<notin> fst ` set b" by (simp add: map_of_eq_None_iff)
    with None r show ?thesis by (simp add: get_prop_def map_of_spread map_add_def)
  next
    case (Some v)
    then have "k \<in> fst ` set b" by (metis map_of_eq_None_iff option.distinct(1))
    with Some r show ?thesis by (simp add: get_prop_def map_of_spread map_add_def)
  qed
qed

subsection \<open>Creating a record whose key is taken\<close>

text \<open>
  C1, as the code has it. \<open>create\<close> applies the defaults and runs the schema's validation
  before it looks for a duplicate. On a writable client: a record the validation rejects
  fails with the validator's error and the store is untouched; a record that passes, on a
  table with a primary key whose read succeeds and holds a record with the same key
  (\<open>===\<close>), fails with the validation error whose one issue names the primary-key field,
  the sheets are unchanged and the read is the only call made.
\<close>

theorem create_rejects_duplicate_key:
  assumes "\<not> isReadOnly cfg"
  shows "(\<forall>e. run_validate schema (applyDefaults schema record) = Some e \<longrightarrow>
            create cfg schema record options s = (Inl e, s))
    \<and> (run_validate schema (applyDefaults schema record) = None
        \<and> truthy_pk schema = Some pk
        \<and> readAllRaw schema s = (Inr existing, s')
        \<and> (\<exists>e \<in> set existing.
              strict_eq (get_prop e pk) (get_prop (applyDefaults schema record) pk))
        \<longrightarrow> create cfg schema record options s
              = (Inl (duplicate_pk pk (get_prop (applyDefaults schema record) pk)), s')
          \<and> is_kind VALIDATION_ERROR
               (duplicate_pk pk (get_prop (applyDefaults schema record) pk))
          \<and> map field (the (validationIssues
               (duplicate_pk pk (get_prop (applyDefaults schema record) pk)))) = [pk]
          \<and> sheets s' = sheets s
          \<and> calls s' = calls s @ [GetSheetValues (readRange schema) UNFORMATTED_VALUE])"
proof (intro conjI allI impI)
  fix e assume "run_validate schema (applyDefaults schema record) = Some e"
  with assms show "create cfg schema record options s = (Inl e, s)"
    by (simp add: create_def Let_def io_throw_def)
next
  assume h: "run_validate schema (applyDefaults schema record) = None
        \<and> truthy_pk schema = Some pk
        \<and> readAllRaw schema s = (Inr existing, s')
        \<and> (\<exists>e \<in> set existing.
              strict_eq (get_prop e pk) (get_prop (applyDefaults schema record) pk))"
  then have ex: "list_ex (\<lambda>e. strict_eq (get_prop e pk) (get_prop (applyDefaults schema record) pk))
                   existing"
    by (simp add: list_ex_iff)
  from h assms ex
  show "create cfg schema record options s
              = (Inl (duplicate_pk pk (get_prop (applyDefaults schema record) pk)), s')"
    by (simp add: create_def Let_def io_bind_def io_throw_def)
  show "is_kind VALIDATION_ERROR (duplicate_pk pk (get_prop (applyDefaults schema record) pk))"
    by (simp add: is_kind_def duplicate_pk_def validationError_def)
  show "map field (the (validationIssues
               (duplicate_pk pk (get_prop (applyDefaults schema record) pk)))) = [pk]"
    by (simp add: duplicate_pk_def validationError_def)
  from h readAllRaw_frame[of schema s "Inr existing" s']
  show "sheets s' = sheets s"
    and "calls s' = calls s @ [GetSheetValues (readRange schema) UNFORMATTED_VALUE]"
    by simp_all
qed

theorem create_rejects_duplicate_key_witness:
  "\<not> isReadOnly shop
   \<and> run_validate Orders (applyDefaults Orders [(''id'', Str ''o1''), (''customer'', Str ''Bob'')])
       = None
   \<and> truthy_pk Orders = Some ''id''
   \<and> readAllRaw Orders shop_store
       = (Inr [[(''id'', Str ''o1''), (''customer'', Str ''Alice'')]],
          shop_store\<lparr>calls := [GetSheetValues (readRange Orders) UNFORMATTED_VALUE]\<rparr>)
   \<and> create shop Orders [(''id'', Str ''o1''), (''customer'', Str ''Bob'')] check_fk shop_store
       = (Inl (duplicate_pk ''id'' (Str ''o1'')),
          shop_store\<lparr>calls := [GetSheetValues (readRange Orders) UNFORMATTED_VALUE]\<rparr>)"
proof -
  let ?rec = "[(''id'', Str ''o1''), (''customer'', Str ''Bob'')]"
  let ?s' = "shop_store\<lparr>calls := [GetSheetValues (readRange Orders) UNFORMATTED_VALUE]\<rparr>"
  have h0: "\<not> isReadOnly shop" by code_simp
  have h1: "run_validate Orders (applyDefaults Orders ?rec) = None" by code_simp
  have h2: "truthy_pk Orders = Some ''id''" by code_simp
  have h3: "readAllRaw Orders shop_store
       = (Inr [[(''id'', Str ''o1''), (''customer'', Str ''Alice'')]], ?s')" by code_simp
  have h4: "\<exists>e \<in> set [[(''id'', Str ''o1''), (''customer'', Str ''Alice'')]].
              strict_eq (get_prop e ''id'') (get_prop (applyDefaults Orders ?rec) ''id'')"
    by code_simp
  have v: "get_prop (applyDefaults Orders ?rec) ''id'' = Str ''o1''" by code_simp
  from create_rejects_duplicate_key[OF h0, of Orders ?rec check_fk shop_store "''id''"
         "[[(''id'', Str ''o1''), (''customer'', Str ''Alice'')]]" ?s'] h1 h2 h3 h4
  have "create shop Orders ?rec check_fk shop_store
          = (Inl (duplicate_pk ''id'' (get_prop (applyDefaults Orders ?rec) ''id'')), ?s')"
    by blast
  with v h0 h1 h2 h3 show ?thesis by simp
qed

text \<open>
  The claim as stated fails where the record lacks a required field: the key \<open>o1\<close> is
  taken, and the error lists \<open>customer\<close>, not the primary-key field \<open>id\<close>.
\<close>

theorem create_duplicate_key_counterexample:
  "fst (readAllRaw Orders shop_store) = Inr [[(''id'', Str ''o1''), (''customer'', Str ''Alice'')]]
   \<and> create shop Orders [(''id'', Str ''o1'')] check_fk shop_store
       = (Inl (validationError
                 (''Validation failed: Required field '' @ dquote @ ''customer'' @ dquote
                    @ '' is missing or null'')
                 [required_issue ''customer'' Undefined]),
          shop_store)
   \<and> field (required_issue ''customer'' Undefined) \<noteq> ''id''"
  by code_simp

subsection \<open>Calls made by the transport functions\<close>

lemma io_bind_InrD:
  "io_bind m f s = (Inr y, s') \<Longrightarrow> \<exists>x s1. m s = (Inr x, s1) \<and> f x s1 = (Inr y, s')"
  by (auto simp: io_bind_def split: prod.splits sum.splits)

lemma clearRange_calls:
  assumes "clearRange r s = (x, s')"
  shows "calls s' = calls s @ [ClearRange r]"
proof (cases "fetch (ClearRange r) s")
  case (Pair y s1)
  from fetch_frame[OF Pair] have f: "calls s1 = calls s @ [ClearRange r]" by simp
  from assms Pair f show ?thesis
    by (cases y) (auto simp: clearRange_def io_bind_def split: option.splits)
qed

lemma updateSheet_calls:
  assumes "updateSheet r vs a s = (x, s')"
  shows "calls s' = calls s @ [UpdateSheet r vs a]"
proof (cases "fetch (UpdateSheet r vs a) s")
  case (Pair y s1)
  from fetch_frame[OF Pair] have f: "calls s1 = calls s @ [UpdateSheet r vs a]" by simp
  from assms Pair f show ?thesis
    by (cases y) (auto simp: updateSheet_def io_bind_def split: option.splits)
qed

text \<open>One pass of the loop of \<open>validateForeignKeys\<close>: a relation is passed over, or checked.\<close>

lemma validate_relations_skip:
  assumes "(case cf of None \<Rightarrow> False | Some c \<Rightarrow> sourceField rel \<notin> set c)
           \<or> get_prop record (sourceField rel) = Null
           \<or> get_prop record (sourceField rel) = Undefined
           \<or> map_of allSchemas (targetModel rel) = None"
  shows "validate_relations record allSchemas cf (rel # rest)
           = validate_relations record allSchemas cf rest"
  using assms by (auto simp: Let_def split: option.splits)

lemma validate_relations_check:
  assumes "\<not> (case cf of None \<Rightarrow> False | Some c \<Rightarrow> sourceField rel \<notin> set c)"
    and "get_prop record (sourceField rel) \<noteq> Null"
    and "get_prop record (sourceField rel) \<noteq> Undefined"
    and "map_of allSchemas (targetModel rel) = Some target"
    and "getSheetValues (readRange target) UNFORMATTED_VALUE s = (Inr rows, s1)"
  shows "validate_relations record allSchemas cf (rel # rest) s
           = (case index_of (headers target)
                     (case primaryKey target of None \<Rightarrow> targetField rel | Some pk \<Rightarrow> pk) of
                None \<Rightarrow> validate_relations record allSchemas cf rest s1
              | Some pkIndex \<Rightarrow>
                  if list_ex (row_references pkIndex (get_prop record (sourceField rel))) rows
                  then validate_relations record allSchemas cf rest s1
                  else (Inl (fk_not_found rel (get_prop record (sourceField rel))), s1))"
  using assms by (simp add: Let_def io_bind_def io_throw_def split: option.splits)

lemma validate_relations_read_fails:
  assumes "\<not> (case cf of None \<Rightarrow> False | Some c \<Rightarrow> sourceField rel \<notin> set c)"
    and "get_prop record (sourceField rel) \<noteq> Null"
    and "get_prop record (sourceField rel) \<noteq> Undefined"
    and "map_of allSchemas (targetModel rel) = Some target"
    and "getSheetValues (readRange target) UNFORMATTED_VALUE s = (Inl e, s1)"
  shows "validate_relations record allSchemas cf (rel # rest) s = (Inl e, s1)"
  using assms by (simp add: Let_def io_bind_def split: option.splits)

text \<open>Foreign-key validation only reads: the sheets stay, the calls added are reads.\<close>

lemma validate_relations_frame:
  "validate_relations record allSchemas cf rels s = (x, s') \<Longrightarrow>
     sheets s' = sheets s \<and> (\<exists>mid. calls s' = calls s @ mid \<and> (\<forall>c \<in> set mid. is_read c))"
proof (induction rels arbitrary: s)
  case Nil
  then show ?case by (simp add: io_return_def)
next
  case (Cons rel rest)
  let ?skip = "(case cf of None \<Rightarrow> False | Some c \<Rightarrow> sourceField rel \<notin> set c)
               \<or> get_prop record (sourceField rel) = Null
               \<or> get_prop record (sourceField rel) = Undefined
               \<or> map_of allSchemas (targetModel rel) = None"
  show ?case
  proof (cases ?skip)
    case True
    from Cons.prems validate_relations_skip[OF True, of rest]
    have "validate_relations record allSchemas cf rest s = (x, s')" by simp
    from Cons.IH[OF this] show ?thesis .
  next
    case False
    then obtain target where t: "map_of allSchemas (targetModel rel) = Some target" by auto
    from False have n: "\<not> (case cf of None \<Rightarrow> False | Some c \<Rightarrow> sourceField rel \<notin> set c)"
      "get_prop record (sourceField rel) \<noteq> Null"
      "get_prop record (sourceField rel) \<noteq> Undefined" by simp_all
    obtain y s1 where g: "getSheetValues (readRange target) UNFORMATTED_VALUE s = (y, s1)"
      by (cases "getSheetValues (readRange target) UNFORMATTED_VALUE s")
    from getSheetValues_frame[OF g]
    have f: "sheets s1 = sheets s"
      "calls s1 = calls s @ [GetSheetValues (readRange target) UNFORMATTED_VALUE]" by simp_all
    show ?thesis
    proof (cases y)
      case (Inl e)
      with validate_relations_read_fails[OF n t, of s e s1 rest] g Cons.prems
      have "s' = s1" by simp
      with f show ?thesis by (auto simp: is_read_def)
    next
      case (Inr rows)
      with validate_relations_check[OF n t, of s rows s1 rest] g Cons.prems
      have "validate_relations record allSchemas cf rest s1 = (x, s') \<or> s' = s1"
        by (auto split: option.splits if_splits)
      then show ?thesis
      proof
        assume "validate_relations record allSchemas cf rest s1 = (x, s')"
        from Cons.IH[OF this] obtain mid where
          "sheets s' = sheets s1" "calls s' = calls s1 @ mid" "\<forall>c \<in> set mid. is_read c" by blast
        with f show ?thesis
          by (intro conjI exI[of _ "GetSheetValues (readRange target) UNFORMATTED_VALUE # mid"])
             (auto simp: is_read_def)
      next
        assume "s' = s1"
        with f show ?thesis by (auto simp: is_read_def)
      qed
    qed
  qed
qed

lemma validateForeignKeys_frame:
  "validateForeignKeys record schema allSchemas cf s = (x, s') \<Longrightarrow>
     sheets s' = sheets s \<and> (\<exists>mid. calls s' = calls s @ mid \<and> (\<forall>c \<in> set mid. is_read c))"
  by (cases "relations schema")
     (auto simp: validateForeignKeys_def io_return_def dest: validate_relations_frame)

subsection \<open>The migration context\<close>

lemma map_of_add_sheet_ids_None:
  "map_of (add_sheet_ids meta m) t = None \<longleftrightarrow> t \<notin> snd ` set meta \<and> map_of m t = None"
  unfolding add_sheet_ids_def
  by (induction meta arbitrary: m) (auto simp: update_conv')






subsection \<open>Foreign keys on write\<close>

text \<open>Relations that pass hand the store on to the relations after them.\<close>

lemma validate_relations_append:
  "validate_relations record allSchemas cf pre s = (Inr u, s0) \<Longrightarrow>
     validate_relations record allSchemas cf (pre @ rest) s
       = validate_relations record allSchemas cf rest s0"
proof (induction pre arbitrary: s)
  case Nil
  then show ?case by (simp add: io_return_def)
next
  case (Cons rel pre)
  let ?skip = "(case cf of None \<Rightarrow> False | Some c \<Rightarrow> sourceField rel \<notin> set c)
               \<or> get_prop record (sourceField rel) = Null
               \<or> get_prop record (sourceField rel) = Undefined
               \<or> map_of allSchemas (targetModel rel) = None"
  show ?case
  proof (cases ?skip)
    case True
    from Cons.prems validate_relations_skip[OF True, of pre]
    have "validate_relations record allSchemas cf pre s = (Inr u, s0)" by simp
    from Cons.IH[OF this] validate_relations_skip[OF True, of "pre @ rest"]
    show ?thesis by simp
  next
    case False
    then obtain target where t: "map_of allSchemas (targetModel rel) = Some target" by auto
    from False have n: "\<not> (case cf of None \<Rightarrow> False | Some c \<Rightarrow> sourceField rel \<notin> set c)"
      "get_prop record (sourceField rel) \<noteq> Null"
      "get_prop record (sourceField rel) \<noteq> Undefined" by simp_all
    obtain y s1 where g: "getSheetValues (readRange target) UNFORMATTED_VALUE s = (y, s1)"
      by (cases "getSheetValues (readRange target) UNFORMATTED_VALUE s")
    show ?thesis
    proof (cases y)
      case (Inl e)
      with validate_relations_read_fails[OF n t, of s e s1 pre] g Cons.prems
      show ?thesis by simp
    next
      case (Inr rows)
      note c1 = validate_relations_check[OF n t g[unfolded Inr], of pre]
      note c2 = validate_relations_check[OF n t g[unfolded Inr], of "pre @ rest"]
      from c1 Cons.prems
      have "validate_relations record allSchemas cf pre s1 = (Inr u, s0)
            \<and> validate_relations record allSchemas cf (rel # pre) s
                = validate_relations record allSchemas cf pre s1"
        by (auto split: option.splits if_splits)
      then have p: "validate_relations record allSchemas cf pre s1 = (Inr u, s0)"
        and q: "validate_relations record allSchemas cf (rel # pre) s
                = validate_relations record allSchemas cf pre s1" by simp_all
      from q c1 c2
      have "validate_relations record allSchemas cf (rel # pre @ rest) s
                = validate_relations record allSchemas cf (pre @ rest) s1"
        using p by (auto split: option.splits if_splits)
      with Cons.IH[OF p] show ?thesis by simp
    qed
  qed
qed

lemma list_ex_row_references:
  "list_ex (row_references i v) rows
     \<longleftrightarrow> (\<exists>row \<in> set rows. cell_at row i \<noteq> Undefined \<and> cell_at row i \<noteq> Null
                           \<and> to_string (cell_at row i) = to_string v)"
  by (simp add: list_ex_iff row_references_def Let_def)

text \<open>The first relation that is checked and finds no row raises its error.\<close>

lemma validateForeignKeys_dangling:
  assumes "relations schema = Some (pre @ rel # post)"
    and "validate_relations record allSchemas cf pre s = (Inr u, s0)"
    and "\<not> (case cf of None \<Rightarrow> False | Some c \<Rightarrow> sourceField rel \<notin> set c)"
    and "get_prop record (sourceField rel) \<noteq> Null"
    and "get_prop record (sourceField rel) \<noteq> Undefined"
    and "map_of allSchemas (targetModel rel) = Some target"
    and "getSheetValues (readRange target) UNFORMATTED_VALUE s0 = (Inr rows, s1)"
    and "index_of (headers target)
           (case primaryKey target of None \<Rightarrow> targetField rel | Some pk \<Rightarrow> pk) = Some i"
    and "\<forall>row \<in> set rows. cell_at row i = Undefined \<or> cell_at row i = Null
           \<or> to_string (cell_at row i) \<noteq> to_string (get_prop record (sourceField rel))"
  shows "validateForeignKeys record schema allSchemas cf s
           = (Inl (fk_not_found rel (get_prop record (sourceField rel))), s1)"
proof -
  from assms(9) have "\<not> list_ex (row_references i (get_prop record (sourceField rel))) rows"
    by (auto simp: list_ex_row_references)
  with validate_relations_check[OF assms(3,4,5,6,7), of post] assms(8)
  have "validate_relations record allSchemas cf (rel # post) s0
          = (Inl (fk_not_found rel (get_prop record (sourceField rel))), s1)" by simp
  with validate_relations_append[OF assms(2), of "rel # post"] assms(1)
  show ?thesis by (simp add: validateForeignKeys_def)
qed

text \<open>What the validation raises, \<open>create\<close> and \<open>update\<close> raise, having written nothing.\<close>

lemma create_raises_fk_error:
  assumes "\<not> isReadOnly cfg"
    and "run_validate schema (applyDefaults schema record) = None"
    and "(truthy_pk schema = None \<and> sA = s)
         \<or> (\<exists>pk existing. truthy_pk schema = Some pk
               \<and> readAllRaw schema s = (Inr existing, sA)
               \<and> \<not> (\<exists>e \<in> set existing.
                      strict_eq (get_prop e pk) (get_prop (applyDefaults schema record) pk)))"
    and "\<not> skipFkValidation options"
    and "validateForeignKeys (applyDefaults schema record) schema (schemas cfg) None sA
           = (Inl e, sB)"
  shows "create cfg schema record options s = (Inl e, sB) \<and> sheets sB = sheets s"
proof -
  from assms(3) have a: "sheets sA = sheets s" using readAllRaw_frame by auto
  from validateForeignKeys_frame[OF assms(5)] a have b: "sheets sB = sheets s" by simp
  from assms(3) show ?thesis
  proof
    assume "truthy_pk schema = None \<and> sA = s"
    with assms(1,2,4,5) b show ?thesis
      by (simp add: create_def Let_def io_bind_def io_return_def)
  next
    assume "\<exists>pk existing. truthy_pk schema = Some pk
               \<and> readAllRaw schema s = (Inr existing, sA)
               \<and> \<not> (\<exists>e \<in> set existing.
                      strict_eq (get_prop e pk) (get_prop (applyDefaults schema record) pk))"
    then obtain pk existing where p: "truthy_pk schema = Some pk"
      "readAllRaw schema s = (Inr existing, sA)"
      "\<not> list_ex (\<lambda>e. strict_eq (get_prop e pk) (get_prop (applyDefaults schema record) pk))
           existing"
      by (auto simp: list_ex_iff)
    with assms(1,2,4,5) b show ?thesis
      by (simp add: create_def Let_def io_bind_def io_return_def)
  qed
qed

lemma update_raises_fk_error:
  assumes "\<not> isReadOnly cfg"
    and "readAllRaw schema s = (Inr records, s1)"
    and "truthy_pk schema = Some pk"
    and "findIndex (\<lambda>r. strict_eq (get_prop r pk) rid) records = Some i"
    and "run_validate schema (spread (records ! i) changes) = None"
    and "\<not> skipFkValidation options"
    and "validateForeignKeys (spread (records ! i) changes) schema (schemas cfg)
           (Some (map fst changes)) s1 = (Inl e, s2)"
  shows "update cfg schema rid changes options s = (Inl e, s2) \<and> sheets s2 = sheets s"
proof -
  from readAllRaw_frame[OF assms(2)] validateForeignKeys_frame[OF assms(7)]
  have "sheets s2 = sheets s" by simp
  with assms show ?thesis
    by (simp add: update_def Let_def io_bind_def)
qed

lemma skip_option_ignores_relations:
  assumes "skipFkValidation options"
  shows "create cfg schema record options
           = create cfg (schema\<lparr>relations := None\<rparr>) record options"
    and "update cfg schema rid changes options
           = update cfg (schema\<lparr>relations := None\<rparr>) rid changes options"
proof -
  have a: "truthy_pk (schema\<lparr>relations := None\<rparr>) = truthy_pk schema"
    "run_validate (schema\<lparr>relations := None\<rparr>) = run_validate schema"
    "readAllRaw (schema\<lparr>relations := None\<rparr>) = readAllRaw schema"
    "applyDefaults (schema\<lparr>relations := None\<rparr>) = applyDefaults schema"
    "header_row (schema\<lparr>relations := None\<rparr>) = header_row schema"
    "table_values (schema\<lparr>relations := None\<rparr>) = table_values schema"
    by (auto simp: truthy_pk_def run_validate_def readAllRaw_def applyDefaults_def
                   header_row_def table_values_def parse_rows_def fun_eq_iff)
  from assms show "create cfg schema record options
           = create cfg (schema\<lparr>relations := None\<rparr>) record options"
    by (simp add: create_def a Let_def io_bind_return cong: option.case_cong if_cong)
  from assms show "update cfg schema rid changes options
           = update cfg (schema\<lparr>relations := None\<rparr>) rid changes options"
    by (simp add: update_def a Let_def io_bind_return cong: option.case_cong if_cong)
qed

lemma pair_collapse: "fst p = a \<Longrightarrow> p = (a, snd p)"
  by (cases p) simp

text \<open>
  C3, as the code has it. In \<open>validateForeignKeys\<close> the relations are taken in the order
  declared. When the relations before \<open>rel\<close> have passed, \<open>rel\<close> is not passed over, the
  read of its target table succeeds, and the column resolved in the target (its primary
  key if it has one, else the relation's target field) is a header of the target under
  which no row holds a non-null cell string-equal to the record's value, the validation
  raises the validation error whose one issue carries the source field, a message with
  the target model, target field and value, and the value. \<open>create\<close> (once the schema
  validation and the duplicate-key check have passed) and \<open>update\<close> (once the record is
  found and the merged record has passed the schema validation) raise what the
  validation raises and the sheets are unchanged. With \<open>skipFkValidation\<close> set, both
  behave as on a schema without relations. A relation is passed over when, on update, its
  source column is not among the changed fields, when the record's value is \<open>null\<close> or
  absent, or when its target model is not registered.
\<close>

theorem foreign_keys_validated_on_write:
  "(relations schema = Some (pre @ rel # post)
      \<and> validate_relations r allSchemas cf pre s = (Inr (), s0)
      \<and> \<not> (case cf of None \<Rightarrow> False | Some c \<Rightarrow> sourceField rel \<notin> set c)
      \<and> get_prop r (sourceField rel) \<noteq> Null
      \<and> get_prop r (sourceField rel) \<noteq> Undefined
      \<and> map_of allSchemas (targetModel rel) = Some target
      \<and> getSheetValues (readRange target) UNFORMATTED_VALUE s0 = (Inr rows, s1)
      \<and> index_of (headers target)
           (case primaryKey target of None \<Rightarrow> targetField rel | Some pk \<Rightarrow> pk) = Some i
      \<and> (\<forall>row \<in> set rows. cell_at row i = Undefined \<or> cell_at row i = Null
             \<or> to_string (cell_at row i) \<noteq> to_string (get_prop r (sourceField rel)))
    \<longrightarrow> validateForeignKeys r schema allSchemas cf s
          = (Inl (fk_not_found rel (get_prop r (sourceField rel))), s1)
      \<and> is_kind VALIDATION_ERROR (fk_not_found rel (get_prop r (sourceField rel)))
      \<and> validationIssues (fk_not_found rel (get_prop r (sourceField rel)))
          = Some [ValidationIssue (sourceField rel)
                    (''Referenced '' @ targetModel rel @ ''.'' @ targetField rel @ '' ''
                       @ dquote @ to_string (get_prop r (sourceField rel)) @ dquote
                       @ '' not found'')
                    (get_prop r (sourceField rel))])
   \<and> (\<not> isReadOnly cfg
      \<and> run_validate schema (applyDefaults schema input) = None
      \<and> ((truthy_pk schema = None \<and> sA = s)
           \<or> (\<exists>pk existing. truthy_pk schema = Some pk
                 \<and> readAllRaw schema s = (Inr existing, sA)
                 \<and> \<not> (\<exists>e \<in> set existing.
                        strict_eq (get_prop e pk) (get_prop (applyDefaults schema input) pk))))
      \<and> \<not> skipFkValidation options
      \<and> validateForeignKeys (applyDefaults schema input) schema (schemas cfg) None sA
           = (Inl e, sB)
    \<longrightarrow> create cfg schema input options s = (Inl e, sB) \<and> sheets sB = sheets s)
   \<and> (\<not> isReadOnly cfg
      \<and> readAllRaw schema s = (Inr records, sA)
      \<and> truthy_pk schema = Some pk
      \<and> findIndex (\<lambda>r. strict_eq (get_prop r pk) rid) records = Some k
      \<and> run_validate schema (spread (records ! k) changes) = None
      \<and> \<not> skipFkValidation options
      \<and> validateForeignKeys (spread (records ! k) changes) schema (schemas cfg)
           (Some (map fst changes)) sA = (Inl e, sB)
    \<longrightarrow> update cfg schema rid changes options s = (Inl e, sB) \<and> sheets sB = sheets s)
   \<and> (skipFkValidation options
    \<longrightarrow> create cfg schema input options
          = create cfg (schema\<lparr>relations := None\<rparr>) input options
      \<and> update cfg schema rid changes options
          = update cfg (schema\<lparr>relations := None\<rparr>) rid changes options)
   \<and> ((case cf of None \<Rightarrow> False | Some c \<Rightarrow> sourceField rel \<notin> set c)
       \<or> get_prop r (sourceField rel) = Null
       \<or> get_prop r (sourceField rel) = Undefined
       \<or> map_of allSchemas (targetModel rel) = None
    \<longrightarrow> validate_relations r allSchemas cf (rel # post)
          = validate_relations r allSchemas cf post)"
proof (intro conjI impI)
  let ?v = "get_prop r (sourceField rel)"
  show "is_kind VALIDATION_ERROR (fk_not_found rel ?v)"
    by (simp add: is_kind_def fk_not_found_def validationError_def)
  show "validationIssues (fk_not_found rel ?v)
          = Some [ValidationIssue (sourceField rel)
                    (''Referenced '' @ targetModel rel @ ''.'' @ targetField rel @ '' ''
                       @ dquote @ to_string ?v @ dquote @ '' not found'') ?v]"
    by (simp add: fk_not_found_def validationError_def)
next
  assume "relations schema = Some (pre @ rel # post)
      \<and> validate_relations r allSchemas cf pre s = (Inr (), s0)
      \<and> \<not> (case cf of None \<Rightarrow> False | Some c \<Rightarrow> sourceField rel \<notin> set c)
      \<and> get_prop r (sourceField rel) \<noteq> Null
      \<and> get_prop r (sourceField rel) \<noteq> Undefined
      \<and> map_of allSchemas (targetModel rel) = Some target
      \<and> getSheetValues (readRange target) UNFORMATTED_VALUE s0 = (Inr rows, s1)
      \<and> index_of (headers target)
           (case primaryKey target of None \<Rightarrow> targetField rel | Some pk \<Rightarrow> pk) = Some i
      \<and> (\<forall>row \<in> set rows. cell_at row i = Undefined \<or> cell_at row i = Null
             \<or> to_string (cell_at row i) \<noteq> to_string (get_prop r (sourceField rel)))"
  then show "validateForeignKeys r schema allSchemas cf s
          = (Inl (fk_not_found rel (get_prop r (sourceField rel))), s1)"
    using validateForeignKeys_dangling by blast
next
  assume h: "\<not> isReadOnly cfg
      \<and> run_validate schema (applyDefaults schema input) = None
      \<and> ((truthy_pk schema = None \<and> sA = s)
           \<or> (\<exists>pk existing. truthy_pk schema = Some pk
                 \<and> readAllRaw schema s = (Inr existing, sA)
                 \<and> \<not> (\<exists>e \<in> set existing.
                        strict_eq (get_prop e pk) (get_prop (applyDefaults schema input) pk))))
      \<and> \<not> skipFkValidation options
      \<and> validateForeignKeys (applyDefaults schema input) schema (schemas cfg) None sA
           = (Inl e, sB)"
  from h have c: "create cfg schema input options s = (Inl e, sB) \<and> sheets sB = sheets s"
    by (intro create_raises_fk_error[of cfg schema input sA s options e sB]) simp_all
  from c show "create cfg schema input options s = (Inl e, sB)" by simp
  from c show "sheets sB = sheets s" by simp
next
  assume h: "\<not> isReadOnly cfg
      \<and> readAllRaw schema s = (Inr records, sA)
      \<and> truthy_pk schema = Some pk
      \<and> findIndex (\<lambda>r. strict_eq (get_prop r pk) rid) records = Some k
      \<and> run_validate schema (spread (records ! k) changes) = None
      \<and> \<not> skipFkValidation options
      \<and> validateForeignKeys (spread (records ! k) changes) schema (schemas cfg)
           (Some (map fst changes)) sA = (Inl e, sB)"
  from h have c: "update cfg schema rid changes options s = (Inl e, sB) \<and> sheets sB = sheets s"
    by (intro update_raises_fk_error[of cfg schema s records sA pk rid k changes options e sB])
       simp_all
  from c show "update cfg schema rid changes options s = (Inl e, sB)" by simp
  from c show "sheets sB = sheets s" by simp
next
  assume "skipFkValidation options"
  from skip_option_ignores_relations[OF this]
  show "create cfg schema input options
          = create cfg (schema\<lparr>relations := None\<rparr>) input options"
    and "update cfg schema rid changes options
          = update cfg (schema\<lparr>relations := None\<rparr>) rid changes options"
    by simp_all
next
  assume "(case cf of None \<Rightarrow> False | Some c \<Rightarrow> sourceField rel \<notin> set c)
       \<or> get_prop r (sourceField rel) = Null
       \<or> get_prop r (sourceField rel) = Undefined
       \<or> map_of allSchemas (targetModel rel) = None"
  from validate_relations_skip[OF this]
  show "validate_relations r allSchemas cf (rel # post)
          = validate_relations r allSchemas cf post" .
qed

text \<open>
  The claim as stated fails where an earlier check fails first: the record refers to no
  order, and the error names the primary key, which is taken, not \<open>orderId\<close>.
\<close>

theorem foreign_key_counterexample:
  "get_prop [(''id'', Str ''i1''), (''orderId'', Str ''ghost''), (''name'', Str ''Gadget'')]
     ''orderId'' = Str ''ghost''
   \<and> fst (getSheetValues (readRange Orders) UNFORMATTED_VALUE shop_store)
       = Inr [[Str ''o1'', Str ''Alice'']]
   \<and> fst (create shop Items
            [(''id'', Str ''i1''), (''orderId'', Str ''ghost''), (''name'', Str ''Gadget'')]
            check_fk shop_store)
       = Inl (validationError ''Duplicate primary key: i1''
                [ValidationIssue ''id'' ''Duplicate primary key'' (Str ''i1'')])"
  by code_simp

theorem foreign_keys_validated_on_write_witness:
  "\<not> isReadOnly shop
   \<and> relations Items = Some [item_order]
   \<and> get_prop gadget ''orderId'' = Str ''ghost''
   \<and> fst (getSheetValues (readRange Orders) UNFORMATTED_VALUE
            (snd (readAllRaw Items shop_store))) = Inr [[Str ''o1'', Str ''Alice'']]
   \<and> fst (create shop Items gadget check_fk shop_store)
       = Inl (fk_not_found item_order (Str ''ghost''))
   \<and> sheets (snd (create shop Items gadget check_fk shop_store)) = sheets shop_store
   \<and> fst (update shop Items (Str ''i1'') [(''orderId'', Str ''ghost'')] check_fk shop_store)
       = Inl (fk_not_found item_order (Str ''ghost''))
   \<and> skipFkValidation skip_fk
   \<and> create shop Items gadget skip_fk = create shop (Items\<lparr>relations := None\<rparr>) gadget skip_fk
   \<and> get_prop [(''id'', Str ''i3''), (''orderId'', Null)] (sourceField item_order) = Null
   \<and> validate_relations [(''id'', Str ''i3''), (''orderId'', Null)] (schemas shop) None
         [item_order]
       = validate_relations [(''id'', Str ''i3''), (''orderId'', Null)] (schemas shop) None []"
proof -
  let ?existing = "[[(''id'', Str ''i1''), (''orderId'', Str ''o1''), (''name'', Str ''Widget'')]]"
  let ?rows = "[[Str ''o1'', Str ''Alice'']]"
  let ?sA = "snd (readAllRaw Items shop_store)"
  let ?s1 = "snd (getSheetValues (readRange Orders) UNFORMATTED_VALUE ?sA)"
  let ?chg = "[(''orderId'', Str ''ghost'')]"
  let ?nul = "[(''id'', Str ''i3''), (''orderId'', Null)]"
  note T = foreign_keys_validated_on_write
  have w: "\<not> isReadOnly shop" by code_simp
  have d: "applyDefaults Items gadget = gadget" by code_simp
  have a1: "relations Items = Some ([] @ item_order # [])" by code_simp
  have a2: "validate_relations gadget (schemas shop) None [] ?sA = (Inr (), ?sA)"
    by (simp add: io_return_def)
  have a3: "\<not> (case None :: string list option of None \<Rightarrow> False
                | Some c \<Rightarrow> sourceField item_order \<notin> set c)" by simp
  have a4: "get_prop gadget (sourceField item_order) \<noteq> Null"
    "get_prop gadget (sourceField item_order) \<noteq> Undefined"
    "get_prop gadget (sourceField item_order) = Str ''ghost''" by code_simp+
  have a5: "map_of (schemas shop) (targetModel item_order) = Some Orders"
    by (simp add: shop_def item_order_def)
  have a6f: "fst (getSheetValues (readRange Orders) UNFORMATTED_VALUE ?sA) = Inr ?rows"
    by code_simp
  note a6 = pair_collapse[OF a6f]
  have a7: "index_of (headers Orders)
              (case primaryKey Orders of None \<Rightarrow> targetField item_order | Some pk \<Rightarrow> pk)
            = Some 0" by code_simp
  have a8: "\<forall>row \<in> set ?rows. cell_at row 0 = Undefined \<or> cell_at row 0 = Null
             \<or> to_string (cell_at row 0) \<noteq> to_string (get_prop gadget (sourceField item_order))"
    by code_simp
  from T[where schema = Items and pre = "[]" and rel = item_order and post = "[]"
           and r = gadget and allSchemas = "schemas shop" and cf = None and s = "?sA"
           and ?s0.0 = "?sA" and target = Orders and rows = "?rows" and ?s1.0 = "?s1" and i = 0,
         THEN conjunct1] a1 a2 a3 a4 a5 a6 a7 a8
  have A: "validateForeignKeys gadget Items (schemas shop) None ?sA
             = (Inl (fk_not_found item_order (Str ''ghost'')), ?s1)" by simp
  have b1: "run_validate Items (applyDefaults Items gadget) = None" by code_simp
  have b2: "truthy_pk Items = Some ''id''" by code_simp
  have "fst (readAllRaw Items shop_store) = Inr ?existing" by code_simp
  note b3 = pair_collapse[OF this]
  have b4: "\<not> (\<exists>e \<in> set ?existing.
                strict_eq (get_prop e ''id'') (get_prop (applyDefaults Items gadget) ''id''))"
    by code_simp
  have b5: "\<not> skipFkValidation check_fk" by code_simp
  from T[where cfg = shop and schema = Items and input = gadget and sA = "?sA"
           and s = shop_store and options = check_fk
           and e = "fk_not_found item_order (Str ''ghost'')" and sB = "?s1",
         THEN conjunct2, THEN conjunct1] w b1 b2 b3 b4 b5 A d
  have B: "create shop Items gadget check_fk shop_store
             = (Inl (fk_not_found item_order (Str ''ghost'')), ?s1)
           \<and> sheets ?s1 = sheets shop_store" by auto
  have c1: "findIndex (\<lambda>r. strict_eq (get_prop r ''id'') (Str ''i1'')) ?existing = Some 0"
    by code_simp
  have c2: "run_validate Items (spread (?existing ! 0) ?chg) = None" by code_simp
  have "fst (validateForeignKeys (spread (?existing ! 0) ?chg) Items (schemas shop)
              (Some (map fst ?chg)) ?sA) = Inl (fk_not_found item_order (Str ''ghost''))"
    by code_simp
  note c3 = pair_collapse[OF this]
  from T[where cfg = shop and schema = Items and s = shop_store and records = "?existing"
           and sA = "?sA" and pk = "''id''" and rid = "Str ''i1''" and k = 0 and changes = "?chg"
           and options = check_fk and e = "fk_not_found item_order (Str ''ghost'')"
           and sB = "snd (validateForeignKeys (spread (?existing ! 0) ?chg) Items (schemas shop)
              (Some (map fst ?chg)) ?sA)",
         THEN conjunct2, THEN conjunct2, THEN conjunct1] w b3 b2 c1 c2 b5 c3
  have C: "fst (update shop Items (Str ''i1'') ?chg check_fk shop_store)
             = Inl (fk_not_found item_order (Str ''ghost''))" by simp
  have d1: "skipFkValidation skip_fk" by code_simp
  from T[where options = skip_fk and cfg = shop and schema = Items and input = gadget,
         THEN conjunct2, THEN conjunct2, THEN conjunct2, THEN conjunct1] d1
  have D: "create shop Items gadget skip_fk
             = create shop (Items\<lparr>relations := None\<rparr>) gadget skip_fk" by simp
  have e1: "get_prop ?nul (sourceField item_order) = Null" by code_simp
  from T[where r = "?nul" and rel = item_order and cf = None
           and allSchemas = "schemas shop" and post = "[]",
         THEN conjunct2, THEN conjunct2, THEN conjunct2, THEN conjunct2] e1
  have E: "validate_relations ?nul (schemas shop) None [item_order]
             = validate_relations ?nul (schemas shop) None []" by simp
  from a1 have r: "relations Items = Some [item_order]" by simp
  from B have B1: "fst (create shop Items gadget check_fk shop_store)
                     = Inl (fk_not_found item_order (Str ''ghost''))"
    and B2: "sheets (snd (create shop Items gadget check_fk shop_store)) = sheets shop_store"
    by simp_all
  from a4(3) have g: "get_prop gadget ''orderId'' = Str ''ghost''" by (simp add: item_order_def)
  from w r g a6f B1 B2 C d1 D e1 E show ?thesis by blast
qed

subsection \<open>Deleting by rewriting the table\<close>

lemma fetch_no_fault:
  "faults s = [] \<Longrightarrow> fetch c s = (Inr (), s\<lparr>calls := calls s @ [c]\<rparr>)"
  by (simp add: fetch_def)

lemma find_sheet_set_grid:
  "find_sheet t shs = Some sh \<Longrightarrow> find_sheet t (set_grid t g shs) = Some (sh\<lparr>grid := g\<rparr>)"
  unfolding find_sheet_def set_grid_def
  by (induction shs) (auto split: if_splits)

lemma set_grid_twice: "set_grid t g (set_grid t h shs) = set_grid t g shs"
  by (induction shs) (auto simp: set_grid_def)

lemma find_sheet_title: "find_sheet t shs = Some sh \<Longrightarrow> title sh = t"
  unfolding find_sheet_def by (induction shs) (auto split: if_splits)

lemma getSheetValues_no_fault:
  assumes "faults s = []" "find_sheet (range_sheet r) (sheets s) = Some sh"
  shows "getSheetValues r opt s
           = (Inr (drop (range_row r - 1) (grid sh)),
              s\<lparr>calls := calls s @ [GetSheetValues r opt]\<rparr>)"
  using assms by (simp add: getSheetValues_def io_bind_def fetch_no_fault)

lemma clearRange_no_fault:
  assumes "faults s = []" "find_sheet (range_sheet r) (sheets s) = Some sh"
  shows "clearRange r s
           = (Inr (), s\<lparr>calls := calls s @ [ClearRange r],
                         sheets := set_grid (range_sheet r) (take (range_row r - 1) (grid sh))
                                     (sheets s)\<rparr>)"
  using assms by (simp add: clearRange_def io_bind_def fetch_no_fault)

lemma updateSheet_no_fault:
  assumes "faults s = []" "find_sheet (range_sheet r) (sheets s) = Some sh"
  shows "updateSheet r vs False s
           = (Inr (), s\<lparr>calls := calls s @ [UpdateSheet r vs False],
                         sheets := set_grid (range_sheet r)
                                     (put_rows (range_row r - 1) (json_rows vs) (grid sh))
                                     (sheets s)\<rparr>)"
  using assms by (simp add: updateSheet_def io_bind_def fetch_no_fault)

text \<open>Records that survive being stored and parsed are read back as they were written.\<close>

lemma map_filter_round_trip:
  assumes "\<forall>r \<in> set rs. \<forall>i. parseRow schema (stored_row schema r) i = Some r"
  shows "List.map_filter (\<lambda>p. parseRow schema (snd p) (fst p))
           (enumerate n (map (stored_row schema) rs)) = rs"
  using assms by (induction rs arbitrary: n) simp_all

lemma parse_rows_round_trip:
  assumes "\<forall>r \<in> set rs. \<forall>i. parseRow schema (stored_row schema r) i = Some r"
  shows "parse_rows schema (map (stored_row schema) rs) = rs"
  using map_filter_round_trip[OF assms] by (simp add: parse_rows_def)

lemma stored_table:
  "drop 1 (json_rows (table_values schema rs)) = map (stored_row schema) rs"
  by (simp add: json_rows_def table_values_def stored_row_def)

text \<open>What \<open>delete\<close> does to a table in its layout when no call fails.\<close>

lemma delete_rewrites:
  assumes "\<not> isReadOnly cfg" "truthy_pk schema = Some pk" "table_layout schema t"
    and "faults s = []" "find_sheet t (sheets s) = Some sh"
  shows "delete cfg schema rid s
    = (Inr (),
       s\<lparr>calls := calls s @
            [GetSheetValues (readRange schema) UNFORMATTED_VALUE,
             ClearRange (clearRange' schema),
             UpdateSheet (writeRange schema)
               (table_values schema
                  (filter (\<lambda>r. \<not> strict_eq (get_prop r pk) rid)
                     (parse_rows schema (drop 1 (grid sh))))) False],
          sheets := set_grid t
            (json_rows (table_values schema
               (filter (\<lambda>r. \<not> strict_eq (get_prop r pk) rid)
                  (parse_rows schema (drop 1 (grid sh))))))
            (sheets s)\<rparr>)"
proof -
  let ?f = "filter (\<lambda>r. \<not> strict_eq (get_prop r pk) rid) (parse_rows schema (drop 1 (grid sh)))"
  let ?s1 = "s\<lparr>calls := calls s @ [GetSheetValues (readRange schema) UNFORMATTED_VALUE]\<rparr>"
  let ?s2 = "?s1\<lparr>calls := calls ?s1 @ [ClearRange (clearRange' schema)],
                 sheets := set_grid t (take 1 (grid sh)) (sheets ?s1)\<rparr>"
  from assms(3) have L: "range_sheet (readRange schema) = t" "range_row (readRange schema) = 2"
    "range_sheet (clearRange' schema) = t" "range_row (clearRange' schema) = 2"
    "range_sheet (writeRange schema) = t" "range_row (writeRange schema) = 1"
    by (simp_all add: table_layout_def)
  from getSheetValues_no_fault[of s "readRange schema" sh UNFORMATTED_VALUE] assms(4,5) L
  have r: "readAllRaw schema s = (Inr (parse_rows schema (drop 1 (grid sh))), ?s1)"
    by (simp add: readAllRaw_def io_bind_def io_return_def)
  from clearRange_no_fault[of ?s1 "clearRange' schema" sh] assms(4,5) L
  have c: "clearRange (clearRange' schema) ?s1 = (Inr (), ?s2)" by simp
  from find_sheet_set_grid[OF assms(5), of "take 1 (grid sh)"]
  have f2: "find_sheet t (sheets ?s2) = Some (sh\<lparr>grid := take 1 (grid sh)\<rparr>)" by simp
  have p: "put_rows 0 (json_rows (table_values schema ?f)) (take 1 (grid sh))
             = json_rows (table_values schema ?f)"
    by (simp add: put_rows_def pad_rows_def json_rows_def table_values_def)
  from updateSheet_no_fault[of ?s2 "writeRange schema" "sh\<lparr>grid := take 1 (grid sh)\<rparr>"
         "table_values schema ?f"] assms(4) f2 L p
  have u: "updateSheet (writeRange schema) (table_values schema ?f) False ?s2
             = (Inr (), ?s2\<lparr>calls := calls ?s2 @
                    [UpdateSheet (writeRange schema) (table_values schema ?f) False],
                  sheets := set_grid t (json_rows (table_values schema ?f)) (sheets ?s2)\<rparr>)"
    by simp
  from assms(1,2) r c u show ?thesis
    by (simp add: delete_def io_bind_def Let_def set_grid_twice)
qed

text \<open>
  C8, as the code has it. \<open>delete\<close> writes the table back from the records it parsed. On
  a writable client, for a table with a primary key in its sheet, no call failing, and
  every record of the table read back as itself once stored (\<open>parseRow\<close> of the JSON of
  \<open>toRow\<close>): \<open>delete(id)\<close> returns without error and the table then reads as its records
  without those whose key is \<open>id\<close>, hence as before when no record has that key; a second
  \<open>delete(id)\<close> returns without error and leaves every sheet as the first left it.
\<close>

theorem delete_is_idempotent:
  assumes "\<not> isReadOnly cfg" "truthy_pk schema = Some pk" "table_layout schema t"
    and "faults s = []" "find_sheet t (sheets s) = Some sh"
    and "\<forall>r \<in> set (parse_rows schema (drop 1 (grid sh))).
           \<forall>i. parseRow schema (stored_row schema r) i = Some r"
  shows "fst (readAllRaw schema s) = Inr (parse_rows schema (drop 1 (grid sh)))
    \<and> fst (delete cfg schema rid s) = Inr ()
    \<and> fst (readAllRaw schema (snd (delete cfg schema rid s)))
        = Inr (filter (\<lambda>r. \<not> strict_eq (get_prop r pk) rid)
                 (parse_rows schema (drop 1 (grid sh))))
    \<and> ((\<forall>r \<in> set (parse_rows schema (drop 1 (grid sh))). \<not> strict_eq (get_prop r pk) rid)
         \<longrightarrow> fst (readAllRaw schema (snd (delete cfg schema rid s)))
               = fst (readAllRaw schema s))
    \<and> fst (delete cfg schema rid (snd (delete cfg schema rid s))) = Inr ()
    \<and> sheets (snd (delete cfg schema rid (snd (delete cfg schema rid s))))
        = sheets (snd (delete cfg schema rid s))"
proof -
  let ?recs = "parse_rows schema (drop 1 (grid sh))"
  let ?f = "filter (\<lambda>r. \<not> strict_eq (get_prop r pk) rid) ?recs"
  let ?G = "json_rows (table_values schema ?f)"
  let ?s1 = "snd (delete cfg schema rid s)"
  from assms(3) have L: "range_sheet (readRange schema) = t" "range_row (readRange schema) = 2"
    by (simp_all add: table_layout_def)
  note d1 = delete_rewrites[OF assms(1,2,3,4,5), of rid]
  from d1 have s1: "faults ?s1 = []" "sheets ?s1 = set_grid t ?G (sheets s)"
    using assms(4) by simp_all
  from find_sheet_set_grid[OF assms(5), of "?G"] s1(2)
  have f1: "find_sheet t (sheets ?s1) = Some (sh\<lparr>grid := ?G\<rparr>)" by simp
  have rt: "\<forall>r \<in> set ?f. \<forall>i. parseRow schema (stored_row schema r) i = Some r"
    using assms(6) by simp
  have rb: "parse_rows schema (drop 1 ?G) = ?f"
    using parse_rows_round_trip[OF rt] by (simp only: stored_table)
  from getSheetValues_no_fault[of s "readRange schema" sh UNFORMATTED_VALUE] assms(4,5) L
  have r0: "fst (readAllRaw schema s) = Inr ?recs"
    by (simp add: readAllRaw_def io_bind_def io_return_def)
  from getSheetValues_no_fault[of ?s1 "readRange schema" "sh\<lparr>grid := ?G\<rparr>" UNFORMATTED_VALUE]
       s1(1) f1 L rb
  have r1: "fst (readAllRaw schema ?s1) = Inr ?f"
    by (simp add: readAllRaw_def io_bind_def io_return_def)
  from d1 have e1: "fst (delete cfg schema rid s) = Inr ()" by simp
  note d2 = delete_rewrites[OF assms(1,2,3) s1(1) f1, of rid]
  from d2 have e2: "fst (delete cfg schema rid ?s1) = Inr ()" by simp
  from d2 rb have "sheets (snd (delete cfg schema rid ?s1)) = set_grid t ?G (sheets ?s1)"
    by simp
  with s1(2) have same: "sheets (snd (delete cfg schema rid ?s1)) = sheets ?s1"
    by (simp add: set_grid_twice)
  have none: "(\<forall>r \<in> set ?recs. \<not> strict_eq (get_prop r pk) rid)
         \<longrightarrow> fst (readAllRaw schema ?s1) = fst (readAllRaw schema s)"
    using r0 r1 by (simp add: filter_id_conv)
  from r0 e1 r1 none e2 same show ?thesis by blast
qed

text \<open>
  The claim as stated fails on a table a record of which is not read back as itself: the
  text \<open>abc\<close> in a numeric column is parsed as \<open>NaN\<close>, rewritten as an empty cell by a
  delete that matches no record, and read as 0 from then on.
\<close>

theorem delete_absent_counterexample:
  "fst (readAllRaw Stock stock_store) = Inr [[(''id'', Str ''a''), (''qty'', NaN)]]
   \<and> fst (delete shop Stock (Str ''zzz'') stock_store) = Inr ()
   \<and> fst (readAllRaw Stock (snd (delete shop Stock (Str ''zzz'') stock_store)))
       = Inr [[(''id'', Str ''a''), (''qty'', Num 0)]]"
  by code_simp

theorem delete_is_idempotent_witness:
  "\<not> isReadOnly shop
   \<and> truthy_pk Orders = Some ''id''
   \<and> table_layout Orders ''Orders''
   \<and> faults shop_store = []
   \<and> find_sheet ''Orders'' (sheets shop_store) = Some orders_sheet
   \<and> parse_rows Orders (drop 1 (grid orders_sheet))
       = [[(''id'', Str ''o1''), (''customer'', Str ''Alice'')]]
   \<and> (\<forall>i. parseRow Orders
              (stored_row Orders [(''id'', Str ''o1''), (''customer'', Str ''Alice'')]) i
            = Some [(''id'', Str ''o1''), (''customer'', Str ''Alice'')])
   \<and> fst (delete shop Orders (Str ''zzz'') shop_store) = Inr ()
   \<and> fst (readAllRaw Orders (snd (delete shop Orders (Str ''zzz'') shop_store)))
       = fst (readAllRaw Orders shop_store)
   \<and> fst (delete shop Orders (Str ''zzz'') (snd (delete shop Orders (Str ''zzz'') shop_store)))
       = Inr ()
   \<and> sheets (snd (delete shop Orders (Str ''zzz'')
                    (snd (delete shop Orders (Str ''zzz'') shop_store))))
       = sheets (snd (delete shop Orders (Str ''zzz'') shop_store))"
proof -
  let ?alice = "[(''id'', Str ''o1''), (''customer'', Str ''Alice'')]"
  have h1: "\<not> isReadOnly shop" by code_simp
  have h2: "truthy_pk Orders = Some ''id''" by code_simp
  have h3: "table_layout Orders ''Orders''" by code_simp
  have h4: "faults shop_store = []" by code_simp
  have h5: "find_sheet ''Orders'' (sheets shop_store) = Some orders_sheet" by code_simp
  have p: "parse_rows Orders (drop 1 (grid orders_sheet)) = [?alice]" by code_simp
  have idx: "parseRow Orders row i = parseRow Orders row 0" for row i
    by (simp add: Orders_def model_schema_def Let_def model_parseRow_def)
  have z: "parseRow Orders (stored_row Orders ?alice) 0 = Some ?alice" by code_simp
  from idx z have rt: "\<forall>i. parseRow Orders (stored_row Orders ?alice) i = Some ?alice"
    by metis
  with p have h6: "\<forall>r \<in> set (parse_rows Orders (drop 1 (grid orders_sheet))).
                    \<forall>i. parseRow Orders (stored_row Orders r) i = Some r" by simp
  have n: "\<forall>r \<in> set (parse_rows Orders (drop 1 (grid orders_sheet))).
             \<not> strict_eq (get_prop r ''id'') (Str ''zzz'')"
    unfolding p by code_simp
  from delete_is_idempotent[OF h1 h2 h3 h4 h5 h6, of "Str ''zzz''"] n
  have c: "fst (delete shop Orders (Str ''zzz'') shop_store) = Inr ()
     \<and> fst (readAllRaw Orders (snd (delete shop Orders (Str ''zzz'') shop_store)))
         = fst (readAllRaw Orders shop_store)
     \<and> fst (delete shop Orders (Str ''zzz'')
              (snd (delete shop Orders (Str ''zzz'') shop_store))) = Inr ()
     \<and> sheets (snd (delete shop Orders (Str ''zzz'')
                      (snd (delete shop Orders (Str ''zzz'') shop_store))))
         = sheets (snd (delete shop Orders (Str ''zzz'') shop_store))"
    by blast
  from h1 h2 h3 h4 h5 p rt c show ?thesis by blast
qed

subsection \<open>Updating a record\<close>

text \<open>What a read, a clear and an overwrite that succeed found and left in the sheets.\<close>

lemma readAllRaw_InrD:
  assumes "readAllRaw schema s = (Inr records, s1)"
  shows "\<exists>sh. find_sheet (range_sheet (readRange schema)) (sheets s) = Some sh
           \<and> records = parse_rows schema (drop (range_row (readRange schema) - 1) (grid sh))"
proof (cases "fetch (GetSheetValues (readRange schema) UNFORMATTED_VALUE) s")
  case (Pair y s0)
  from fetch_frame[OF Pair] have f: "sheets s0 = sheets s" by simp
  from assms Pair f show ?thesis
    by (cases y)
       (auto simp: readAllRaw_def getSheetValues_def io_bind_def io_return_def
             split: option.splits)
qed

lemma clearRange_InrD:
  assumes "clearRange r s = (Inr x, s')"
  shows "\<exists>sh. find_sheet (range_sheet r) (sheets s) = Some sh
           \<and> sheets s' = set_grid (range_sheet r) (take (range_row r - 1) (grid sh)) (sheets s)"
proof (cases "fetch (ClearRange r) s")
  case (Pair y s0)
  from fetch_frame[OF Pair] have f: "sheets s0 = sheets s" by simp
  from assms Pair f show ?thesis
    by (cases y) (auto simp: clearRange_def io_bind_def split: option.splits)
qed

lemma updateSheet_InrD:
  assumes "updateSheet r vs False s = (Inr x, s')"
  shows "\<exists>sh. find_sheet (range_sheet r) (sheets s) = Some sh
           \<and> sheets s' = set_grid (range_sheet r)
                            (put_rows (range_row r - 1) (json_rows vs) (grid sh)) (sheets s)"
proof (cases "fetch (UpdateSheet r vs False) s")
  case (Pair y s0)
  from fetch_frame[OF Pair] have f: "sheets s0 = sheets s" by simp
  from assms Pair f show ?thesis
    by (cases y) (auto simp: updateSheet_def io_bind_def split: option.splits)
qed

lemma put_table_values:
  "put_rows 0 (json_rows (table_values schema rs)) (take 1 g) = json_rows (table_values schema rs)"
  by (simp add: put_rows_def pad_rows_def json_rows_def table_values_def)

text \<open>
  C2. Whenever \<open>update(id, changes)\<close> succeeds (\<open>changes\<close> an object, its keys distinct):
  the table has a primary key, the table read gave the records, the record updated is
  the first whose key is \<open>id\<close>, and the record returned is that record with the fields of
  \<open>changes\<close> laid over it: a field of \<open>changes\<close> has the value given there, every other
  field the value it had. After the read and the foreign-key reads the calls are exactly
  the clear of the data range and one overwrite with the header row followed by
  every record in its place, the returned record in the place of the old one. And for a
  table laid out in the sheet \<open>t\<close> (read and cleared from row 2, written from row 1): the
  records were those parsed from the rows of \<open>t\<close> below the first, and the update leaves
  in \<open>t\<close> the header row followed by the row of every record, in the order read, the row
  of the returned record where the old one was, and leaves every other sheet as it was.
\<close>

theorem update_merges_and_rewrites:
  assumes "update cfg schema rid changes options s = (Inr r, s')"
    and "distinct (map fst changes)"
  shows "\<exists>pk records i s1 mid.
      truthy_pk schema = Some pk
    \<and> readAllRaw schema s = (Inr records, s1)
    \<and> i < length records
    \<and> strict_eq (get_prop (records ! i) pk) rid
    \<and> (\<forall>j<i. \<not> strict_eq (get_prop (records ! j) pk) rid)
    \<and> r = spread (records ! i) changes
    \<and> (\<forall>k. get_prop r k
             = (if k \<in> fst ` set changes then get_prop changes k
                else get_prop (records ! i) k))
    \<and> (\<forall>c \<in> set mid. is_read c)
    \<and> calls s' = calls s1 @ mid @
         [ClearRange (clearRange' schema),
          UpdateSheet (writeRange schema)
            (header_row schema # map (toRow schema) (records[i := r])) False]
    \<and> (table_layout schema t \<longrightarrow>
         (\<exists>sh. find_sheet t (sheets s) = Some sh
            \<and> records = parse_rows schema (drop 1 (grid sh))
            \<and> sheets s' = set_grid t
                 (json_rows (header_row schema # map (toRow schema) (records[i := r])))
                 (sheets s)
            \<and> find_sheet t (sheets s')
                 = Some (sh\<lparr>grid := json_rows
                           (header_row schema # map (toRow schema) (records[i := r]))\<rparr>)))"
proof -
  from assms(1) have w: "\<not> isReadOnly cfg"
    by (auto simp: update_def io_throw_def)
  obtain y s1 where rd0: "readAllRaw schema s = (y, s1)" by (cases "readAllRaw schema s")
  from assms(1) w rd0 obtain records where y: "y = Inr records"
    by (cases y) (auto simp: update_def io_bind_def)
  note rd = rd0[unfolded y]
  from assms(1) w rd obtain pk where pk: "truthy_pk schema = Some pk"
    by (cases "truthy_pk schema") (auto simp: update_def io_bind_def io_throw_def)
  from assms(1) w rd pk obtain i where
    i: "findIndex (\<lambda>r. strict_eq (get_prop r pk) rid) records = Some i"
    by (cases "findIndex (\<lambda>r. strict_eq (get_prop r pk) rid) records")
       (auto simp: update_def io_bind_def io_throw_def)
  let ?m = "spread (records ! i) changes"
  from assms(1) w rd pk i have v: "run_validate schema ?m = None"
    by (cases "run_validate schema ?m") (auto simp: update_def io_bind_def io_throw_def Let_def)
  let ?fk = "if skipFkValidation options then io_return ()
          else validateForeignKeys ?m schema (schemas cfg) (Some (map fst changes))"
  let ?vs = "table_values schema (records[i := ?m])"
  from assms(1) w rd pk i v
  have "io_bind ?fk
          (\<lambda>u1. io_bind (clearRange (clearRange' schema))
          (\<lambda>u2. io_bind (updateSheet (writeRange schema) ?vs False)
          (\<lambda>u3. io_return ?m))) s1 = (Inr r, s')"
    by (simp add: update_def io_bind_def Let_def)
  from io_bind_InrD[OF this] obtain u1 s2 where
    fk: "?fk s1 = (Inr u1, s2)"
    and a: "io_bind (clearRange (clearRange' schema))
          (\<lambda>u2. io_bind (updateSheet (writeRange schema) ?vs False)
          (\<lambda>u3. io_return ?m)) s2 = (Inr r, s')" by blast
  from io_bind_InrD[OF a] obtain u2 s3 where
    cl: "clearRange (clearRange' schema) s2 = (Inr u2, s3)"
    and b: "io_bind (updateSheet (writeRange schema) ?vs False)
          (\<lambda>u3. io_return ?m) s3 = (Inr r, s')" by blast
  from io_bind_InrD[OF b] obtain u3 s4 where
    up: "updateSheet (writeRange schema) ?vs False s3 = (Inr u3, s4)"
    and c0: "io_return ?m s4 = (Inr r, s')" by blast
  from c0 have r: "r = ?m" and s4: "s4 = s'" by (simp_all add: io_return_def)
  obtain mid where mid: "calls s2 = calls s1 @ mid" "\<forall>c \<in> set mid. is_read c"
    and sh2: "sheets s2 = sheets s1"
  proof (cases "skipFkValidation options")
    case True
    with fk have "calls s2 = calls s1 @ []" "sheets s2 = sheets s1"
      by (simp_all add: io_return_def)
    then show ?thesis using that by fastforce
  next
    case False
    with fk have "validateForeignKeys ?m schema (schemas cfg) (Some (map fst changes)) s1
                    = (Inr u1, s2)" by simp
    from validateForeignKeys_frame[OF this] show ?thesis using that by blast
  qed
  from clearRange_calls[OF cl] updateSheet_calls[OF up] mid(1) r s4
  have c: "calls s' = calls s1 @ mid @
         [ClearRange (clearRange' schema),
          UpdateSheet (writeRange schema)
            (header_row schema # map (toRow schema) (records[i := r])) False]"
    by (simp add: table_values_def)
  from findIndex_Some[OF i] have fi:
    "i < length records" "strict_eq (get_prop (records ! i) pk) rid"
    "\<forall>j<i. \<not> strict_eq (get_prop (records ! j) pk) rid" by simp_all
  from get_prop_spread[OF assms(2)] r
  have g: "\<forall>k. get_prop r k
             = (if k \<in> fst ` set changes then get_prop changes k
                else get_prop (records ! i) k)" by simp
  let ?G = "json_rows (header_row schema # map (toRow schema) (records[i := r]))"
  have st: "\<exists>sh. find_sheet t (sheets s) = Some sh
            \<and> records = parse_rows schema (drop 1 (grid sh))
            \<and> sheets s' = set_grid t ?G (sheets s)
            \<and> find_sheet t (sheets s') = Some (sh\<lparr>grid := ?G\<rparr>)"
    if lay: "table_layout schema t"
  proof -
    from lay have L: "range_sheet (readRange schema) = t" "range_row (readRange schema) = 2"
      "range_sheet (clearRange' schema) = t" "range_row (clearRange' schema) = 2"
      "range_sheet (writeRange schema) = t" "range_row (writeRange schema) = 1"
      by (simp_all add: table_layout_def)
    from readAllRaw_InrD[OF rd] L obtain sh where
      sh: "find_sheet t (sheets s) = Some sh"
      and recs: "records = parse_rows schema (drop 1 (grid sh))" by auto
    from readAllRaw_frame[OF rd] sh2 have s2: "sheets s2 = sheets s" by simp
    from clearRange_InrD[OF cl] L s2 sh
    have s3: "sheets s3 = set_grid t (take 1 (grid sh)) (sheets s)" by auto
    from find_sheet_set_grid[OF sh, of "take 1 (grid sh)"] s3
    have f3: "find_sheet t (sheets s3) = Some (sh\<lparr>grid := take 1 (grid sh)\<rparr>)" by simp
    from updateSheet_InrD[OF up] L f3 s3 s4
    have "sheets s' = set_grid t (put_rows 0 (json_rows ?vs) (take 1 (grid sh)))
                        (set_grid t (take 1 (grid sh)) (sheets s))" by auto
    then have "sheets s' = set_grid t (json_rows ?vs) (sheets s)"
      by (simp only: put_table_values set_grid_twice)
    then have e: "sheets s' = set_grid t ?G (sheets s)"
      by (simp add: r table_values_def)
    from find_sheet_set_grid[OF sh, of ?G] e
    have "find_sheet t (sheets s') = Some (sh\<lparr>grid := ?G\<rparr>)" by simp
    with sh recs e show ?thesis by blast
  qed
  from pk rd fi r g mid(2) c st show ?thesis by blast
qed

theorem update_merges_and_rewrites_witness:
  "fst (update shop Orders (Str ''o2'') [(''customer'', Str ''Carol'')] check_fk busy_store)
     = Inr [(''id'', Str ''o2''), (''customer'', Str ''Carol'')]
   \<and> distinct (map fst [(''customer'', Str ''Carol'')])
   \<and> table_layout Orders ''Orders''
   \<and> fst (readAllRaw Orders busy_store)
       = Inr [[(''id'', Str ''o1''), (''customer'', Str ''Alice'')],
              [(''id'', Str ''o2''), (''customer'', Str ''Bob'')],
              [(''id'', Str ''o3''), (''customer'', Str ''Cara'')]]
   \<and> calls (snd (update shop Orders (Str ''o2'') [(''customer'', Str ''Carol'')] check_fk
                   busy_store))
       = [GetSheetValues (readRange Orders) UNFORMATTED_VALUE,
          ClearRange (clearRange' Orders),
          UpdateSheet (writeRange Orders)
            [[Str ''id'', Str ''customer''], [Str ''o1'', Str ''Alice''],
             [Str ''o2'', Str ''Carol''], [Str ''o3'', Str ''Cara'']] False]
   \<and> sheets (snd (update shop Orders (Str ''o2'') [(''customer'', Str ''Carol'')] check_fk
                    busy_store))
       = [\<lparr>sheetId = 0, title = ''Orders'',
           grid = [[Str ''id'', Str ''customer''], [Str ''o1'', Str ''Alice''],
                   [Str ''o2'', Str ''Carol''], [Str ''o3'', Str ''Cara'']]\<rparr>,
          \<lparr>sheetId = 1, title = ''Items'',
           grid = [[Str ''id'', Str ''orderId'', Str ''name''],
                   [Str ''i1'', Str ''o1'', Str ''Widget'']]\<rparr>]
   \<and> (\<exists>pk records i s1 mid sh.
        truthy_pk Orders = Some pk
      \<and> readAllRaw Orders busy_store = (Inr records, s1)
      \<and> i < length records
      \<and> [(''id'', Str ''o2''), (''customer'', Str ''Carol'')]
          = spread (records ! i) [(''customer'', Str ''Carol'')]
      \<and> calls (snd (update shop Orders (Str ''o2'') [(''customer'', Str ''Carol'')] check_fk
                      busy_store))
          = calls s1 @ mid @
             [ClearRange (clearRange' Orders),
              UpdateSheet (writeRange Orders)
                (header_row Orders # map (toRow Orders)
                   (records[i := [(''id'', Str ''o2''), (''customer'', Str ''Carol'')]])) False]
      \<and> find_sheet ''Orders'' (sheets busy_store) = Some sh
      \<and> records = parse_rows Orders (drop 1 (grid sh))
      \<and> sheets (snd (update shop Orders (Str ''o2'') [(''customer'', Str ''Carol'')] check_fk
                       busy_store))
          = set_grid ''Orders''
              (json_rows (header_row Orders # map (toRow Orders)
                 (records[i := [(''id'', Str ''o2''), (''customer'', Str ''Carol'')]])))
              (sheets busy_store))"
proof -
  let ?u = "update shop Orders (Str ''o2'') [(''customer'', Str ''Carol'')] check_fk busy_store"
  let ?r = "[(''id'', Str ''o2''), (''customer'', Str ''Carol'')]"
  have h1: "fst ?u = Inr ?r" by code_simp
  then have e: "?u = (Inr ?r, snd ?u)" by (metis prod.collapse)
  have h2: "distinct (map fst [(''customer'', Str ''Carol'')])" by simp
  have h3: "table_layout Orders ''Orders''" by code_simp
  have h4: "fst (readAllRaw Orders busy_store)
       = Inr [[(''id'', Str ''o1''), (''customer'', Str ''Alice'')],
              [(''id'', Str ''o2''), (''customer'', Str ''Bob'')],
              [(''id'', Str ''o3''), (''customer'', Str ''Cara'')]]" by code_simp
  have h5: "calls (snd ?u)
       = [GetSheetValues (readRange Orders) UNFORMATTED_VALUE,
          ClearRange (clearRange' Orders),
          UpdateSheet (writeRange Orders)
            [[Str ''id'', Str ''customer''], [Str ''o1'', Str ''Alice''],
             [Str ''o2'', Str ''Carol''], [Str ''o3'', Str ''Cara'']] False]"
    by code_simp
  have h6: "sheets (snd ?u)
       = [\<lparr>sheetId = 0, title = ''Orders'',
           grid = [[Str ''id'', Str ''customer''], [Str ''o1'', Str ''Alice''],
                   [Str ''o2'', Str ''Carol''], [Str ''o3'', Str ''Cara'']]\<rparr>,
          \<lparr>sheetId = 1, title = ''Items'',
           grid = [[Str ''id'', Str ''orderId'', Str ''name''],
                   [Str ''i1'', Str ''o1'', Str ''Widget'']]\<rparr>]"
    by code_simp
  from update_merges_and_rewrites[OF e h2, of "''Orders''"] h3
  obtain pk records i s1 mid sh where
      "truthy_pk Orders = Some pk"
      "readAllRaw Orders busy_store = (Inr records, s1)"
      "i < length records"
      "?r = spread (records ! i) [(''customer'', Str ''Carol'')]"
      "calls (snd ?u) = calls s1 @ mid @
             [ClearRange (clearRange' Orders),
              UpdateSheet (writeRange Orders)
                (header_row Orders # map (toRow Orders) (records[i := ?r])) False]"
      "find_sheet ''Orders'' (sheets busy_store) = Some sh"
      "records = parse_rows Orders (drop 1 (grid sh))"
      "sheets (snd ?u) = set_grid ''Orders''
              (json_rows (header_row Orders # map (toRow Orders) (records[i := ?r])))
              (sheets busy_store)"
    by auto
  then have c: "\<exists>pk records i s1 mid sh.
        truthy_pk Orders = Some pk
      \<and> readAllRaw Orders busy_store = (Inr records, s1)
      \<and> i < length records
      \<and> ?r = spread (records ! i) [(''customer'', Str ''Carol'')]
      \<and> calls (snd ?u) = calls s1 @ mid @
             [ClearRange (clearRange' Orders),
              UpdateSheet (writeRange Orders)
                (header_row Orders # map (toRow Orders) (records[i := ?r])) False]
      \<and> find_sheet ''Orders'' (sheets busy_store) = Some sh
      \<and> records = parse_rows Orders (drop 1 (grid sh))
      \<and> sheets (snd ?u) = set_grid ''Orders''
              (json_rows (header_row Orders # map (toRow Orders) (records[i := ?r])))
              (sheets busy_store)" by blast
  from h1 h2 h3 h4 h5 h6 c show ?thesis by blast
qed

subsection \<open>Eager loading\<close>

lemma get_prop_update:
  "get_prop (AList.update k v e) f = (if f = k then v else get_prop e f)"
  by (simp add: get_prop_def update_conv')

text \<open>The value attached under a related key, as \<open>attach_related\<close> computes it.\<close>

lemma attach_related_map:
  assumes "map_of allSchemas k = Some rs"
  shows "attach_related schema allSchemas pk batchResult k recs
    = map (\<lambda>parent. AList.update k
            (case findRelationToModel rs allSchemas schema of
               Some rel \<Rightarrow>
                 Arr (filter (\<lambda>child. to_string (get_prop child (sourceField rel))
                                       = to_string (get_prop parent pk))
                        (parse_rows rs (batch_rows batchResult (readRange rs))))
             | None \<Rightarrow> Arr [])
            parent) recs"
  using assms by (simp add: attach_related_def Let_def batch_rows_def cong: option.case_cong)

lemma length_attach_related:
  "length (attach_related schema allSchemas pk batchResult k recs) = length recs"
  by (cases "map_of allSchemas k") (simp_all add: attach_related_def Let_def)

lemma length_fold_attach:
  "length (fold (attach_related schema allSchemas pk batchResult) ks recs) = length recs"
  by (induction ks arbitrary: recs) (simp_all add: length_attach_related)

text \<open>
  After the passes over the keys \<open>ks\<close>, none of them the key column, a parent holds under
  each of \<open>ks\<close> the array computed from its own key value, and its other fields as before.
\<close>

lemma fold_attach_fields:
  assumes "pk \<notin> set ks" "\<forall>k \<in> set ks. map_of allSchemas k \<noteq> None" "i < length recs"
  shows "get_prop (fold (attach_related schema allSchemas pk batchResult) ks recs ! i) f
    = (if f \<in> set ks then
         (case map_of allSchemas f of
            None \<Rightarrow> Undefined
          | Some rs \<Rightarrow>
              (case findRelationToModel rs allSchemas schema of
                 Some rel \<Rightarrow>
                   Arr (filter (\<lambda>child. to_string (get_prop child (sourceField rel))
                                         = to_string (get_prop (recs ! i) pk))
                          (parse_rows rs (batch_rows batchResult (readRange rs))))
               | None \<Rightarrow> Arr []))
       else get_prop (recs ! i) f)"
  using assms
proof (induction ks arbitrary: recs)
  case Nil
  then show ?case by simp
next
  case (Cons k ks)
  from Cons.prems obtain rs where rs: "map_of allSchemas k = Some rs" by auto
  let ?recs' = "attach_related schema allSchemas pk batchResult k recs"
  from Cons.prems have a: "pk \<notin> set ks" "\<forall>k \<in> set ks. map_of allSchemas k \<noteq> None"
    "i < length ?recs'" and kp: "k \<noteq> pk"
    by (auto simp: length_attach_related)
  note IH = Cons.IH[OF a]
  from Cons.prems(3) have n: "?recs' ! i
    = AList.update k
        (case findRelationToModel rs allSchemas schema of
           Some rel \<Rightarrow>
             Arr (filter (\<lambda>child. to_string (get_prop child (sourceField rel))
                                   = to_string (get_prop (recs ! i) pk))
                    (parse_rows rs (batch_rows batchResult (readRange rs))))
         | None \<Rightarrow> Arr [])
        (recs ! i)"
    by (simp add: attach_related_map[OF rs])
  from kp have p: "get_prop (?recs' ! i) pk = get_prop (recs ! i) pk"
    by (simp add: n get_prop_update)
  show ?case
  proof (cases "f \<in> set ks")
    case True
    from IH True show ?thesis unfolding p by simp
  next
    case False
    with IH have "get_prop (fold (attach_related schema allSchemas pk batchResult) (k # ks) recs ! i) f
                    = get_prop (?recs' ! i) f" by simp
    with False rs show ?thesis by (cases "f = k") (simp_all add: n get_prop_update)
  qed
qed

lemma batchGetValues_frame:
  assumes "batchGetValues rs opt s = (x, s')" "rs \<noteq> []"
  shows "sheets s' = sheets s \<and> calls s' = calls s @ [BatchGetValues rs opt]"
proof (cases "fetch (BatchGetValues rs opt) s")
  case (Pair y s1)
  from fetch_frame[OF Pair]
  have f: "sheets s1 = sheets s" "calls s1 = calls s @ [BatchGetValues rs opt]" by simp_all
  from assms Pair f show ?thesis
    by (cases y) (auto simp: batchGetValues_def io_bind_def split: option.splits)
qed

lemma read_ranges_Some:
  "read_ranges shs rs = Some vrs \<Longrightarrow> vrs = map (\<lambda>r. (r, range_rows shs r)) rs"
  by (induction rs arbitrary: vrs) (auto simp: range_rows_def split: option.splits)

lemma map_of_fold_update:
  "map_of (fold (\<lambda>vr m. AList.update (fst vr) (snd vr) m) (map (\<lambda>r. (r, g r)) rs) m0) r
     = (if r \<in> set rs then Some (g r) else map_of m0 r)"
  by (induction rs arbitrary: m0) (auto simp: update_conv')

text \<open>A batched read answers each range asked with the rows the range covers.\<close>

lemma batchGetValues_rows:
  assumes "batchGetValues rs opt s = (Inr m, s')"
  shows "\<forall>r \<in> set rs. batch_rows m r = range_rows (sheets s) r"
proof (cases "rs = []")
  case True
  then show ?thesis by simp
next
  case False
  obtain y s1 where f: "fetch (BatchGetValues rs opt) s = (y, s1)"
    by (cases "fetch (BatchGetValues rs opt) s")
  from fetch_frame[OF f] have sh: "sheets s1 = sheets s" by simp
  from assms False f obtain vrs where v: "read_ranges (sheets s1) rs = Some vrs"
    and m: "m = fold (\<lambda>vr m. AList.update (fst vr) (snd vr) m) vrs []"
    by (cases y) (auto simp: batchGetValues_def io_bind_def split: option.splits)
  from read_ranges_Some[OF v] sh have "vrs = map (\<lambda>r. (r, range_rows (sheets s) r)) rs" by simp
  with m show ?thesis by (simp add: batch_rows_def map_of_fold_update)
qed

text \<open>
  What \<open>loadRelated\<close> attaches when no name collides: for a primary table with a
  primary key, an include map that names at least one registered table and no table
  registered under the name of the key column, and a batched read that succeeds: the
  batched read is the one call made,
  it asks for the read ranges of all the registered tables requested, and the sheets are
  unchanged; the records come back in number and order; under each requested registered
  key a record holds an array: the records parsed, in row order, from the rows the store
  has in the related table's range whose source column of the relation back to the
  primary table is string-equal to the record's key value, and the empty array when the
  related table declares no such relation; every field not requested is as it was.
\<close>

lemma related_records_attached:
  assumes "truthy_pk schema = Some pk"
    and "\<forall>k \<in> set includeMap. map_of allSchemas k \<noteq> None \<longrightarrow> k \<noteq> pk"
    and "ranges = List.map_filter (\<lambda>k. map_option readRange (map_of allSchemas k)) includeMap"
    and "ranges \<noteq> []"
    and "batchGetValues ranges UNFORMATTED_VALUE s = (Inr batchResult, s')"
  shows "\<exists>out. loadRelated records schema includeMap allSchemas s = (Inr out, s')
    \<and> length out = length records
    \<and> sheets s' = sheets s
    \<and> calls s' = calls s @ [BatchGetValues ranges UNFORMATTED_VALUE]
    \<and> (\<forall>r \<in> set ranges. batch_rows batchResult r = range_rows (sheets s) r)
    \<and> (\<forall>i < length records. \<forall>k \<in> set includeMap. \<forall>rs. map_of allSchemas k = Some rs \<longrightarrow>
          get_prop (out ! i) k
            = (case findRelationToModel rs allSchemas schema of
                 Some rel \<Rightarrow>
                   Arr (filter (\<lambda>child. to_string (get_prop child (sourceField rel))
                                         = to_string (get_prop (records ! i) pk))
                          (parse_rows rs (batch_rows batchResult (readRange rs))))
               | None \<Rightarrow> Arr []))
    \<and> (\<forall>i < length records. \<forall>f. f \<notin> set includeMap \<longrightarrow>
          get_prop (out ! i) f = get_prop (records ! i) f)"
proof -
  let ?ks = "filter (\<lambda>k. map_of allSchemas k \<noteq> None) includeMap"
  let ?out = "fold (attach_related schema allSchemas pk batchResult) ?ks records"
  from assms(3,4) have ne: "includeMap \<noteq> []" by auto
  from assms(1,3,4,5) ne have L: "loadRelated records schema includeMap allSchemas s = (Inr ?out, s')"
    by (simp add: loadRelated_def Let_def io_bind_def io_return_def)
  have len: "length ?out = length records" by (rule length_fold_attach)
  from assms(2) have k1: "pk \<notin> set ?ks" by auto
  have k2: "\<forall>k \<in> set ?ks. map_of allSchemas k \<noteq> None" by simp
  note F = fold_attach_fields[OF k1 k2, of _ records schema batchResult]
  have att: "\<forall>i < length records. \<forall>k \<in> set includeMap. \<forall>rs. map_of allSchemas k = Some rs \<longrightarrow>
          get_prop (?out ! i) k
            = (case findRelationToModel rs allSchemas schema of
                 Some rel \<Rightarrow>
                   Arr (filter (\<lambda>child. to_string (get_prop child (sourceField rel))
                                         = to_string (get_prop (records ! i) pk))
                          (parse_rows rs (batch_rows batchResult (readRange rs))))
               | None \<Rightarrow> Arr [])"
  proof (intro allI impI ballI)
    fix i k rs assume i: "i < length records" and k: "k \<in> set includeMap"
      and rs: "map_of allSchemas k = Some rs"
    with F[OF i, of k] show "get_prop (?out ! i) k
            = (case findRelationToModel rs allSchemas schema of
                 Some rel \<Rightarrow>
                   Arr (filter (\<lambda>child. to_string (get_prop child (sourceField rel))
                                         = to_string (get_prop (records ! i) pk))
                          (parse_rows rs (batch_rows batchResult (readRange rs))))
               | None \<Rightarrow> Arr [])" by simp
  qed
  have oth: "\<forall>i < length records. \<forall>f. f \<notin> set includeMap \<longrightarrow>
          get_prop (?out ! i) f = get_prop (records ! i) f"
  proof (intro allI impI)
    fix i f assume i: "i < length records" and f: "f \<notin> set includeMap"
    with F[OF i, of f] show "get_prop (?out ! i) f = get_prop (records ! i) f" by simp
  qed
  from batchGetValues_frame[OF assms(5,4)]
  have fr: "sheets s' = sheets s" "calls s' = calls s @ [BatchGetValues ranges UNFORMATTED_VALUE]"
    by simp_all
  from L len fr batchGetValues_rows[OF assms(5)] att oth show ?thesis by blast
qed

lemma related_records_attached_shop:
  "truthy_pk Orders = Some ''id''
   \<and> ''Items'' \<noteq> ''id''
   \<and> [readRange Items]
       = List.map_filter (\<lambda>k. map_option readRange (map_of (schemas shop) k)) [''Items'']
   \<and> fst (batchGetValues [readRange Items] UNFORMATTED_VALUE shop_store)
       = Inr [(readRange Items, [[Str ''i1'', Str ''o1'', Str ''Widget'']])]
   \<and> fst (loadRelated [[(''id'', Str ''o1''), (''customer'', Str ''Alice'')]] Orders [''Items'']
            (schemas shop) shop_store)
       = Inr [[(''id'', Str ''o1''), (''customer'', Str ''Alice''),
               (''Items'', Arr [[(''id'', Str ''i1''), (''orderId'', Str ''o1''),
                                 (''name'', Str ''Widget'')]])]]
   \<and> (\<exists>out. loadRelated [[(''id'', Str ''o1''), (''customer'', Str ''Alice'')]] Orders
               [''Items''] (schemas shop) shop_store
             = (Inr out, snd (batchGetValues [readRange Items] UNFORMATTED_VALUE shop_store))
        \<and> length out = 1
        \<and> calls (snd (batchGetValues [readRange Items] UNFORMATTED_VALUE shop_store))
            = calls shop_store @ [BatchGetValues [readRange Items] UNFORMATTED_VALUE])"
proof -
  let ?recs = "[[(''id'', Str ''o1''), (''customer'', Str ''Alice'')]]"
  let ?b = "batchGetValues [readRange Items] UNFORMATTED_VALUE shop_store"
  let ?m = "[(readRange Items, [[Str ''i1'', Str ''o1'', Str ''Widget'']])]"
  have h1: "truthy_pk Orders = Some ''id''" by code_simp
  have h2: "\<forall>k \<in> set [''Items'']. map_of (schemas shop) k \<noteq> None \<longrightarrow> k \<noteq> ''id''" by simp
  have h3: "[readRange Items]
       = List.map_filter (\<lambda>k. map_option readRange (map_of (schemas shop) k)) [''Items'']"
    by (simp add: shop_def)
  have h4: "[readRange Items] \<noteq> []" by simp
  have h5f: "fst ?b = Inr ?m" by code_simp
  note h5 = pair_collapse[OF h5f]
  have e: "fst (loadRelated ?recs Orders [''Items''] (schemas shop) shop_store)
       = Inr [[(''id'', Str ''o1''), (''customer'', Str ''Alice''),
               (''Items'', Arr [[(''id'', Str ''i1''), (''orderId'', Str ''o1''),
                                 (''name'', Str ''Widget'')]])]]" by code_simp
  from related_records_attached[OF h1 h2 h3 h4 h5, of ?recs]
  have c: "\<exists>out. loadRelated ?recs Orders [''Items''] (schemas shop) shop_store
             = (Inr out, snd ?b)
        \<and> length out = 1
        \<and> calls (snd ?b) = calls shop_store @ [BatchGetValues [readRange Items] UNFORMATTED_VALUE]"
    by auto
  have h2': "''Items'' \<noteq> ''id''" by simp
  from h1 h2' h3 h5f e c show ?thesis by blast
qed

text \<open>
  C4. A registry holds the items under the name of the orders' key column, \<open>id\<close>, and the
  orders are read with the items and the tags included. The order \<open>o1\<close> has the tag \<open>t1\<close>,
  whose \<open>orderId\<close> is \<open>o1\<close>, yet it comes back with no tag: the first pass of \<open>loadRelated\<close>
  puts the array of items where the key was, and the second pass reads \<open>parent[pk]\<close>
  anew and matches the tags against that array. With the tags included first they are
  attached.
\<close>

theorem related_tags_not_attached:
  "fst (readAllRaw Orders tagged_store) = Inr [[(''id'', Str ''o1''), (''customer'', Str ''Alice'')]]
   \<and> fst (readAllRaw Tags tagged_store)
       = Inr [[(''id'', Str ''t1''), (''orderId'', Str ''o1''), (''label'', Str ''urgent'')]]
   \<and> fst (findMany tagged_shop Orders None (Some [''id'', ''Tags'']) tagged_store)
       = Inr [[(''id'', Arr [[(''id'', Str ''i1''), (''orderId'', Str ''o1''),
                              (''name'', Str ''Widget'')]]),
               (''customer'', Str ''Alice''),
               (''Tags'', Arr [])]]
   \<and> fst (findMany tagged_shop Orders None (Some [''Tags'', ''id'']) tagged_store)
       = Inr [[(''id'', Arr [[(''id'', Str ''i1''), (''orderId'', Str ''o1''),
                              (''name'', Str ''Widget'')]]),
               (''customer'', Str ''Alice''),
               (''Tags'', Arr [[(''id'', Str ''t1''), (''orderId'', Str ''o1''),
                                (''label'', Str ''urgent'')]])]]"
  by code_simp

subsection \<open>The tables of the shop are models\<close>

lemma shop_models_defined:
  "defineModel ''Orders'' [(''id'', as_primaryKey field_string), (''customer'', field_string)]
     = Inr Orders"
  "defineModel ''Items''
     [(''id'', as_primaryKey field_string),
      (''orderId'', with_references ''Orders'' ''id'' field_string),
      (''name'', field_string)] = Inr Items"
  "defineModel ''Stock'' [(''id'', as_primaryKey field_string), (''qty'', field_number)]
     = Inr Stock"
  by (simp_all add: defineModel_def Orders_def Items_def Stock_def as_primaryKey_def
        field_string_def field_number_def with_references_def)

subsection \<open>The ledger across runs\<close>

text \<open>A procedure that fails ends the run in the state it left, with nothing appended.\<close>

lemma failed_procedure_stops_the_run:
  assumes "up m mCtx s = (Inl err, s1)"
  shows "execute_pending clock mCtx (m # ms) s = ((Inl (migration_failed m err), s1), [version m])"
    and "kind (migration_failed m err) = MIGRATION_ERROR"
    and "migrationVersion (migration_failed m err) = Some (version m)"
    and "migrationName (migration_failed m err) = Some (name m)"
    and "cause (migration_failed m err) = Some err"
  using assms by (simp_all add: migration_failed_def migrationError_def)

text \<open>Migrations the ledger read lists are passed over: nothing is called or appended.\<close>

lemma listed_migrations_are_skipped:
  assumes "duplicate_version [] ms = None" "faults s = []"
    and "find_sheet MIGRATIONS_SHEET (sheets s) = Some sh"
    and "\<forall>m \<in> set ms. version m \<in> set (appliedVersions (drop 1 (grid sh)))"
  shows "runMigrations clock ms s
    = ((Inr (), s\<lparr>calls := calls s @
          [GetSpreadsheetMetadata, GetSheetValues MIGRATIONS_RANGE UNFORMATTED_VALUE]\<rparr>), [])"
proof -
  let ?s1 = "s\<lparr>calls := calls s @ [GetSpreadsheetMetadata]\<rparr>"
  let ?meta = "map (\<lambda>sh. (sheetId sh, title sh)) (sheets s)"
  from assms(2) have g: "getSpreadsheetMetadata s = (Inr ?meta, ?s1)"
    by (simp add: getSpreadsheetMetadata_def io_bind_def fetch_no_fault)
  from assms(3) obtain x where "x \<in> set (sheets s)" "title x = MIGRATIONS_SHEET"
    by (auto simp: find_sheet_def find_Some_iff in_set_conv_nth)
  then have "MIGRATIONS_SHEET \<in> title ` set (sheets s)" by (metis image_eqI)
  then have "map_of (add_sheet_ids ?meta []) MIGRATIONS_SHEET \<noteq> None"
    by (simp add: map_of_add_sheet_ids_None image_image)
  then obtain i where k: "map_of (add_sheet_ids ?meta []) MIGRATIONS_SHEET = Some i" by auto
  from getSheetValues_no_fault[of ?s1 MIGRATIONS_RANGE sh UNFORMATTED_VALUE] assms(2,3)
  have r: "getSheetValues MIGRATIONS_RANGE UNFORMATTED_VALUE ?s1
             = (Inr (drop 1 (grid sh)),
                ?s1\<lparr>calls := calls ?s1 @ [GetSheetValues MIGRATIONS_RANGE UNFORMATTED_VALUE]\<rparr>)"
    by (simp add: MIGRATIONS_RANGE_def)
  from assms(4) have e: "filter (\<lambda>m. version m \<notin> set (appliedVersions (drop 1 (grid sh))))
                           (sort_key version ms) = []"
    by (simp add: filter_empty_conv)
  from g k r e
  have "prepare_pending ms s
          = (Inr ([], add_sheet_ids ?meta []),
             s\<lparr>calls := calls s @
                [GetSpreadsheetMetadata, GetSheetValues MIGRATIONS_RANGE UNFORMATTED_VALUE]\<rparr>)"
    by (simp add: prepare_pending_def io_bind_def io_return_def Let_def)
  with assms(1) show ?thesis by (simp add: runMigrations_def)
qed

text \<open>
  C7 at the first run ever. The spreadsheet has no ledger sheet; the run creates it,
  calls the procedure of migration 1 and appends its row to \<open>A1:C\<close> of the empty sheet,
  where it becomes row 1. The applied versions are read from \<open>A2:C\<close>: nothing is there, so
  the second run of the same list calls the procedure again and appends a second row.
\<close>

theorem second_run_repeats_first_migration:
  "find_sheet MIGRATIONS_SHEET (sheets shop_store) = None
   \<and> fst (fst (runMigrations noon [add_phone] shop_store)) = Inr ()
   \<and> snd (runMigrations noon [add_phone] shop_store) = [1]
   \<and> range_rows (sheets (snd (fst (runMigrations noon [add_phone] shop_store))))
        MIGRATIONS_APPEND_RANGE = [ledger_row add_phone]
   \<and> range_rows (sheets (snd (fst (runMigrations noon [add_phone] shop_store))))
        MIGRATIONS_RANGE = []
   \<and> fst (fst (runMigrations noon [add_phone]
                 (snd (fst (runMigrations noon [add_phone] shop_store))))) = Inr ()
   \<and> snd (runMigrations noon [add_phone]
            (snd (fst (runMigrations noon [add_phone] shop_store)))) = [1]
   \<and> range_rows (sheets (snd (fst (runMigrations noon [add_phone]
                                      (snd (fst (runMigrations noon [add_phone] shop_store)))))))
        MIGRATIONS_APPEND_RANGE = [ledger_row add_phone, ledger_row add_phone]"
  by code_simp

text \<open>
  C6 at the first run ever. Migration 2 succeeds and is recorded in row 1 of the new
  ledger sheet, migration 3 fails. The next run reads no applied version, calls the
  procedure of migration 2 again, which fails on the sheet it created before, and stops
  there: the procedure of migration 3 is not called.
\<close>

theorem failed_migration_not_retried:
  "find_sheet MIGRATIONS_SHEET (sheets shop_store) = None
   \<and> fst (fst (runMigrations noon [create_tags, broken] shop_store))
       = Inl (migration_failed broken (JsError ''boom''))
   \<and> snd (runMigrations noon [create_tags, broken] shop_store) = [2, 3]
   \<and> range_rows (sheets (snd (fst (runMigrations noon [create_tags, broken] shop_store))))
        MIGRATIONS_APPEND_RANGE = [ledger_row create_tags]
   \<and> fst (fst (runMigrations noon [create_tags, broken]
                 (snd (fst (runMigrations noon [create_tags, broken] shop_store)))))
       = Inl (migration_failed create_tags bad_request)
   \<and> snd (runMigrations noon [create_tags, broken]
            (snd (fst (runMigrations noon [create_tags, broken] shop_store)))) = [2]"
  by code_simp

subsection \<open>The ledger under a header row\<close>

text \<open>Appending a ledger row on a store without faults.\<close>

lemma append_ledger_row:
  assumes "faults s = []" "ledger_sheet s = Some sh"
  shows "\<exists>s'. updateSheet MIGRATIONS_APPEND_RANGE [row] True s = (Inr (), s')
           \<and> faults s' = []
           \<and> ledger_sheet s' = Some (sh\<lparr>grid := grid sh @ [map json_cell row]\<rparr>)"
proof -
  let ?g = "grid sh @ [map json_cell row]"
  let ?s' = "s\<lparr>calls := calls s @ [UpdateSheet MIGRATIONS_APPEND_RANGE [row] True],
               sheets := set_grid MIGRATIONS_SHEET ?g (sheets s)\<rparr>"
  from assms have sh: "find_sheet MIGRATIONS_SHEET (sheets s) = Some sh"
    by (simp add: ledger_sheet_def)
  with assms(1)
  have "updateSheet MIGRATIONS_APPEND_RANGE [row] True s = (Inr (), ?s')"
    by (simp add: updateSheet_def io_bind_def fetch_no_fault MIGRATIONS_APPEND_RANGE_def
                  append_rows_def pad_rows_def json_rows_def)
  moreover from assms(1) have "faults ?s' = []" by simp
  moreover from find_sheet_set_grid[OF sh, of ?g]
  have "ledger_sheet ?s' = Some (sh\<lparr>grid := ?g\<rparr>)" by (simp add: ledger_sheet_def)
  ultimately show ?thesis by blast
qed

text \<open>A run of the loop that succeeds adds one row per migration, its version first.\<close>

lemma execute_pending_ledger:
  assumes "\<forall>m \<in> set ms. keeps_ledger (sheetId sh) ctx m"
    and "faults s = []" "ledger_sheet s = Some sh"
    and "execute_pending clock ctx ms s = ((Inr (), s'), vs)"
  shows "faults s' = [] \<and>
         (\<exists>rows. ledger_sheet s' = Some (sh\<lparr>grid := grid sh @ rows\<rparr>)
                  \<and> map (\<lambda>r. cell_at r 0) rows = map (\<lambda>m. Num (version m)) ms)"
  using assms
proof (induction ms arbitrary: s sh vs)
  case Nil
  then show ?case by simp
next
  case (Cons m ms)
  obtain a s1 where u: "up m ctx s = (a, s1)" by (cases "up m ctx s")
  from Cons.prems(4) u obtain x where a: "a = Inr x" by (cases a) auto
  from Cons.prems(1) have k: "keeps_ledger (sheetId sh) ctx m" by simp
  from Cons.prems(3) have "map_option sheetId (ledger_sheet s) = Some (sheetId sh)" by simp
  with k u Cons.prems(2,3) have s1: "faults s1 = []" "ledger_sheet s1 = Some sh"
    unfolding keeps_ledger_def by metis+
  let ?row = "[Num (version m), Str (name m), Str (clock s1)]"
  let ?sh = "sh\<lparr>grid := grid sh @ [map json_cell ?row]\<rparr>"
  from append_ledger_row[OF s1, of ?row] obtain s2 where
    w: "updateSheet MIGRATIONS_APPEND_RANGE [?row] True s1 = (Inr (), s2)"
    and s2: "faults s2 = []" "ledger_sheet s2 = Some ?sh" by blast
  obtain r' vs' where e: "execute_pending clock ctx ms s2 = (r', vs')"
    by (cases "execute_pending clock ctx ms s2")
  from Cons.prems(4) u a w e have r': "r' = (Inr (), s')" by simp
  from Cons.prems(1) have all: "\<forall>m \<in> set ms. keeps_ledger (sheetId ?sh) ctx m" by simp
  from Cons.IH[OF all s2 e[unfolded r']] obtain rows where
    f: "faults s' = []" and l: "ledger_sheet s' = Some (?sh\<lparr>grid := grid ?sh @ rows\<rparr>)"
    and c: "map (\<lambda>r. cell_at r 0) rows = map (\<lambda>m. Num (version m)) ms" by blast
  have "map (\<lambda>r. cell_at r 0) (map json_cell ?row # rows)
          = map (\<lambda>m. Num (version m)) (m # ms)"
    using c by (simp add: cell_at_def json_cell_def)
  with f l show ?case by (intro conjI exI[of _ "map json_cell ?row # rows"]) simp_all
qed

lemma appliedVersions_append:
  "appliedVersions (xs @ ys) = appliedVersions xs @ appliedVersions ys"
  by (simp add: appliedVersions_def List.map_filter_def)

lemma appliedVersions_numbers:
  "map (\<lambda>r. cell_at r 0) rows = map (\<lambda>m. Num (version m)) ms
     \<Longrightarrow> appliedVersions rows = map version ms"
proof (induction rows arbitrary: ms)
  case Nil
  then show ?case by (simp add: appliedVersions_def)
next
  case (Cons r rows)
  then obtain m ms' where ms: "ms = m # ms'" by (cases ms) auto
  with Cons.prems have h: "cell_at r 0 = Num (version m)"
    "map (\<lambda>r. cell_at r 0) rows = map (\<lambda>m. Num (version m)) ms'" by simp_all
  from Cons.IH[OF h(2)] h(1) ms show ?case
    by (simp add: appliedVersions_def to_number_def)
qed

text \<open>
  With a row above the ledger rows (a header), no faults, and procedures that leave the
  ledger sheet alone, a run that succeeds is followed by a run that calls no procedure
  and changes no sheet: it makes its two reads and returns.
\<close>

lemma rerun_is_idle_under_a_header:
  assumes "distinct (map version ms)" "faults s = []"
    and "ledger_sheet s = Some sh" "grid sh \<noteq> []"
    and "\<forall>m \<in> set ms. keeps_ledger (sheetId sh) (createMigrationContext (sheet_ids s)) m"
    and "runMigrations clock ms s = ((Inr (), s1), vs)"
  shows "runMigrations clock ms s1
    = ((Inr (), s1\<lparr>calls := calls s1 @
          [GetSpreadsheetMetadata, GetSheetValues MIGRATIONS_RANGE UNFORMATTED_VALUE]\<rparr>), [])"
proof -
  from assms(1) have dv: "duplicate_version [] ms = None" by (simp add: duplicate_version_None)
  from assms(3) have sh: "find_sheet MIGRATIONS_SHEET (sheets s) = Some sh"
    by (simp add: ledger_sheet_def)
  let ?g = "grid sh"
  let ?s0 = "s\<lparr>calls := calls s @
          [GetSpreadsheetMetadata, GetSheetValues MIGRATIONS_RANGE UNFORMATTED_VALUE]\<rparr>"
  let ?meta = "map (\<lambda>sh. (sheetId sh, title sh)) (sheets s)"
  let ?pending = "filter (\<lambda>m. version m \<notin> set (appliedVersions (drop 1 ?g))) (sort_key version ms)"
  let ?s' = "s\<lparr>calls := calls s @ [GetSpreadsheetMetadata]\<rparr>"
  from assms(2) have gm: "getSpreadsheetMetadata s = (Inr ?meta, ?s')"
    by (simp add: getSpreadsheetMetadata_def io_bind_def fetch_no_fault)
  from sh obtain x where "x \<in> set (sheets s)" "title x = MIGRATIONS_SHEET"
    by (auto simp: find_sheet_def find_Some_iff in_set_conv_nth)
  then have "MIGRATIONS_SHEET \<in> title ` set (sheets s)" by (metis image_eqI)
  then have "map_of (add_sheet_ids ?meta []) MIGRATIONS_SHEET \<noteq> None"
    by (simp add: map_of_add_sheet_ids_None image_image)
  then obtain i where k: "map_of (add_sheet_ids ?meta []) MIGRATIONS_SHEET = Some i" by auto
  from getSheetValues_no_fault[of ?s' MIGRATIONS_RANGE sh UNFORMATTED_VALUE] assms(2) sh
  have rd: "getSheetValues MIGRATIONS_RANGE UNFORMATTED_VALUE ?s'
             = (Inr (drop 1 ?g),
                ?s'\<lparr>calls := calls ?s' @ [GetSheetValues MIGRATIONS_RANGE UNFORMATTED_VALUE]\<rparr>)"
    by (simp add: MIGRATIONS_RANGE_def)
  from gm k rd
  have pp: "prepare_pending ms s = (Inr (?pending, sheet_ids s), ?s0)"
    by (simp add: prepare_pending_def io_bind_def io_return_def Let_def sheet_ids_def)
  have s0: "faults ?s0 = []" "ledger_sheet ?s0 = Some sh"
    using assms(2,3) by (simp_all add: ledger_sheet_def)
  have "faults s1 = [] \<and> (\<exists>rows. ledger_sheet s1 = Some (sh\<lparr>grid := ?g @ rows\<rparr>)
            \<and> map (\<lambda>r. cell_at r 0) rows = map (\<lambda>m. Num (version m)) ?pending)"
  proof (cases "?pending = []")
    case True
    with assms(6) dv pp have "s1 = ?s0" by (simp add: runMigrations_def)
    with s0 True show ?thesis by simp
  next
    case False
    with assms(6) dv pp
    have e: "execute_pending clock (createMigrationContext (sheet_ids s)) ?pending ?s0
               = ((Inr (), s1), vs)" by (simp add: runMigrations_def)
    from assms(5) have kl: "\<forall>m \<in> set ?pending.
        keeps_ledger (sheetId sh) (createMigrationContext (sheet_ids s)) m" by simp
    from execute_pending_ledger[OF kl s0 e] show ?thesis .
  qed
  then obtain rows where f1: "faults s1 = []"
    and l1: "ledger_sheet s1 = Some (sh\<lparr>grid := ?g @ rows\<rparr>)"
    and c1: "map (\<lambda>r. cell_at r 0) rows = map (\<lambda>m. Num (version m)) ?pending" by blast
  let ?sh1 = "sh\<lparr>grid := ?g @ rows\<rparr>"
  from l1 have sh1: "find_sheet MIGRATIONS_SHEET (sheets s1) = Some ?sh1"
    by (simp add: ledger_sheet_def)
  from assms(4) have "drop 1 (?g @ rows) = drop 1 ?g @ rows" by (cases ?g) simp_all
  with appliedVersions_numbers[OF c1]
  have av: "appliedVersions (drop 1 (grid ?sh1))
              = appliedVersions (drop 1 ?g) @ map version ?pending"
    by (simp add: appliedVersions_append)
  have listed: "\<forall>m \<in> set ms. version m \<in> set (appliedVersions (drop 1 (grid ?sh1)))"
  proof
    fix m assume m: "m \<in> set ms"
    show "version m \<in> set (appliedVersions (drop 1 (grid ?sh1)))"
    proof (cases "version m \<in> set (appliedVersions (drop 1 ?g))")
      case True
      then show ?thesis unfolding av by (metis Un_iff set_append)
    next
      case False
      with m have "m \<in> set ?pending" by simp
      then show ?thesis unfolding av by (metis Un_iff image_eqI set_append set_map)
    qed
  qed
  from listed_migrations_are_skipped[OF dv f1 sh1 listed] show ?thesis .
qed

text \<open>Adding a column to the orders leaves the ledger sheet of the shop alone.\<close>

lemma find_sheet_map_grid:
  "find_sheet t shs = Some sh \<Longrightarrow> sheetId sh \<noteq> i \<Longrightarrow> find_sheet t (map_grid i f shs) = Some sh"
  unfolding find_sheet_def map_grid_def
  by (induction shs) (auto split: if_splits)

lemma add_phone_keeps_ledger:
  "keeps_ledger 99 (createMigrationContext (sheet_ids ledger_store)) add_phone"
  unfolding keeps_ledger_def
proof (intro allI impI)
  fix s r s'
  assume u: "up add_phone (createMigrationContext (sheet_ids ledger_store)) s = (r, s')"
    and f: "faults s = []" and l: "map_option sheetId (ledger_sheet s) = Some 99"
  from l obtain sh where sh: "find_sheet MIGRATIONS_SHEET (sheets s) = Some sh"
    and i: "sheetId sh \<noteq> 0" by (auto simp: ledger_sheet_def)
  have "map_of (sheet_ids ledger_store) ''Orders'' = Some 0" by code_simp
  then have "up add_phone (createMigrationContext (sheet_ids ledger_store))
               = structuralBatchUpdate [InsertDimension 0 2 3, UpdateCells 0 0 2 ''phone'']"
    by (simp add: add_phone_def createMigrationContext_def resolveSheetId_def io_bind_return)
  with u f sh i show "faults s' = [] \<and> ledger_sheet s' = ledger_sheet s"
    by (auto simp: structuralBatchUpdate_def io_bind_def fetch_no_fault ledger_sheet_def
                   find_sheet_map_grid split: option.splits if_splits)
qed

text \<open>So on the shop, whose ledger sheet has a header row, a second run is idle.\<close>

lemma shop_rerun_is_idle:
  "snd (runMigrations noon [add_phone] ledger_store) = [1] \<and>
   snd (runMigrations noon [add_phone] (snd (fst (runMigrations noon [add_phone] ledger_store))))
     = []"
proof -
  let ?s1 = "snd (fst (runMigrations noon [add_phone] ledger_store))"
  have e: "fst (fst (runMigrations noon [add_phone] ledger_store)) = Inr ()" by code_simp
  have v: "snd (runMigrations noon [add_phone] ledger_store) = [1]" by code_simp
  from e v have r: "runMigrations noon [add_phone] ledger_store = ((Inr (), ?s1), [1])"
    by (metis prod.collapse)
  have a: "distinct (map version [add_phone])" by simp
  have b: "faults ledger_store = []" by code_simp
  have c: "ledger_sheet ledger_store
             = Some \<lparr>sheetId = 99, title = MIGRATIONS_SHEET,
                     grid = [[Str ''version'', Str ''name'', Str ''applied_at'']]\<rparr>"
    by code_simp
  from rerun_is_idle_under_a_header[OF a b c _ _ r] add_phone_keeps_ledger
  have "snd (runMigrations noon [add_phone] ?s1) = []" by simp
  with v show ?thesis by simp
qed

end
